(* ===== verification/Prelude.thy ===== *)
theory Prelude
  imports Complex_Main "HOL-Library.Multiset"
begin

text \<open>
  Shared vocabulary of the development: the Python exceptions the modelled code can raise,
  the result type \<open>py_error + 'a\<close> that every fallible operation returns, Python's
  \<open>%\<close> and \<open>range(start, stop, step)\<close> with their error branches, the
  \<open>float("inf")\<close>-extended loss values, and the index arithmetic of a row-major grid that
  the batch regrouping of \<open>train_encoder.py\<close> relies on.
\<close>

section \<open>Python exceptions as values\<close>

text \<open>
  Every \<open>raise\<close>, failed \<open>assert\<close> and framework exception of the modelled code is a
  constructor here. \<open>AssertionError\<close> and \<open>UnsupportedLoss\<close> carry the message of the
  source; \<open>AttributeError\<close> is a method call on \<open>None\<close>, \<open>UnboundLocalError\<close> a read
  of a local that was never assigned; \<open>KeyboardInterrupt\<close> is
  the user interruption handled by the entry point.
\<close>

datatype py_error =
    KeyError string
  | ValueError
  | ZeroDivisionError
  | RuntimeError
  | AttributeError
  | AssertionError string
  | MissingValue string
  | UnsupportedLoss string
  | UnboundLocalError string
  | KeyboardInterrupt

type_synonym 'a result = "py_error + 'a"

named_theorems grid_simps "index arithmetic of a row-major grid"
named_theorems result_simps "evaluation of the result (error + value) combinators"

definition bind_result :: "'a result \<Rightarrow> ('a \<Rightarrow> 'b result) \<Rightarrow> 'b result" where
  "bind_result r f = (case r of Inl e \<Rightarrow> Inl e | Inr x \<Rightarrow> f x)"

lemma bind_result_Inl [simp, result_simps]: "bind_result (Inl e) f = Inl e"
  by (simp add: bind_result_def)

lemma bind_result_Inr [simp, result_simps]: "bind_result (Inr x) f = f x"
  by (simp add: bind_result_def)

lemma bind_result_eq_Inr [result_simps]:
  "bind_result r f = Inr y \<longleftrightarrow> (\<exists>x. r = Inr x \<and> f x = Inr y)"
  by (cases r) auto

section \<open>Python arithmetic with its errors\<close>

text \<open>
  Python's \<open>a % b\<close> on \<open>int\<close> rounds towards minus infinity, as HOL's \<open>mod\<close>
  on \<open>int\<close> does, and raises \<open>ZeroDivisionError\<close> when \<open>b = 0\<close>
  (HOL's \<open>a mod 0 = a\<close> would hide it).
\<close>

definition py_mod :: "int \<Rightarrow> int \<Rightarrow> int result" where
  "py_mod a b = (if b = 0 then Inl ZeroDivisionError else Inr (a mod b))"

text \<open>
  \<open>range(a, b, s)\<close> for a positive step lists \<open>a, a + s, \<dots>\<close> below \<open>b\<close>;
  a zero step raises \<open>ValueError\<close>. Only non-negative bounds and steps occur in the code.
\<close>

function py_range_from :: "nat \<Rightarrow> nat \<Rightarrow> nat \<Rightarrow> nat list" where
  "py_range_from a b s = (if 0 < s \<and> a < b then a # py_range_from (a + s) b s else [])"
  by pat_completeness auto
termination
  by (relation "measure (\<lambda>(a, b, s). b - a)") auto

declare py_range_from.simps [simp del]

definition py_range :: "nat \<Rightarrow> nat \<Rightarrow> nat \<Rightarrow> nat list result" where
  "py_range a b s = (if s = 0 then Inl ValueError else Inr (py_range_from a b s))"

text \<open>The range stops at the first value at or above the bound, also when the bound is
  not a multiple of the step away from the start.\<close>

lemma py_range_from_le:
  assumes "0 < s" and "a + (n - 1) * s < b" and "b \<le> a + n * s"
  shows "py_range_from a b s = map (\<lambda>k. a + k * s) [0..<n]"
  using assms
proof (induction n arbitrary: a)
  case 0
  then show ?case by (simp add: py_range_from.simps)
next
  case (Suc n)
  show ?case
  proof (cases n)
    case 0
    with Suc.prems show ?thesis
      by (simp add: py_range_from.simps [of a] py_range_from.simps [of "a + s"])
  next
    case (Suc m)
    with Suc.prems have "a + s + (n - 1) * s < b" and "b \<le> a + s + n * s"
      by (simp_all add: algebra_simps)
    then have "py_range_from (a + s) b s = map (\<lambda>k. a + s + k * s) [0..<n]"
      using Suc.IH Suc.prems(1) by blast
    moreover from Suc.prems(2) have "a < b"
      by (meson le_add1 le_less_trans)
    ultimately show ?thesis
      using Suc.prems(1)
      by (simp add: py_range_from.simps [of a] map_upt_Suc algebra_simps del: upt_Suc)
  qed
qed

section \<open>Loss values extended by \<open>float("inf")\<close>\<close>

text \<open>
  The best-loss watermark starts at \<open>float("inf")\<close>. Finite losses are \<open>real\<close>
  (rounding of IEEE doubles is not modelled); the watermark is \<open>real option\<close> with
  \<open>None\<close> standing for \<open>+inf\<close>.
\<close>

type_synonym ext_real = "real option"

fun lt_ext :: "real \<Rightarrow> ext_real \<Rightarrow> bool" where
  "lt_ext x None = True"
| "lt_ext x (Some y) = (x < y)"

fun le_ext :: "ext_real \<Rightarrow> ext_real \<Rightarrow> bool" where
  "le_ext _ None = True"
| "le_ext None (Some _) = False"
| "le_ext (Some x) (Some y) = (x \<le> y)"

lemma le_ext_refl [simp]: "le_ext x x"
  by (cases x) auto

lemma le_ext_trans: "le_ext x y \<Longrightarrow> le_ext y z \<Longrightarrow> le_ext x z"
  by (cases x; cases y; cases z) auto

section \<open>Row-major grids\<close>

text \<open>
  A flat sequence of \<open>r * c\<close> elements viewed as \<open>r\<close> rows of \<open>c\<close> columns puts
  the element at row \<open>j\<close>, column \<open>i\<close> at position \<open>j * c + i\<close>. These facts
  are shared by every proof about the regrouping.
\<close>

lemma grid_pos_less [grid_simps]:
  "j < r \<Longrightarrow> i < (c::nat) \<Longrightarrow> j * c + i < r * c"
proof -
  assume "j < r" "i < c"
  then have "j * c + i < j * c + c" by simp
  also have "\<dots> = Suc j * c" by simp
  also from \<open>j < r\<close> have "\<dots> \<le> r * c" by (intro mult_le_mono1) simp
  finally show ?thesis .
qed

lemma grid_pos_div [grid_simps]: "i < (c::nat) \<Longrightarrow> (j * c + i) div c = j"
  by simp

lemma grid_pos_mod [grid_simps]: "i < (c::nat) \<Longrightarrow> (j * c + i) mod c = i"
  by simp

lemma grid_pos_inj [grid_simps]:
  "i < (c::nat) \<Longrightarrow> i' < c \<Longrightarrow> (j * c + i = j' * c + i') \<longleftrightarrow> (j = j' \<and> i = i')"
  by (metis grid_pos_div grid_pos_mod)

lemma grid_pos_split:
  assumes "k < r * (c::nat)"
  shows "k div c < r \<and> k mod c < c \<and> k = (k div c) * c + k mod c"
proof -
  from assms have "0 < c" by (cases c) auto
  moreover from assms have "k div c < r"
    by (simp add: less_mult_imp_div_less)
  ultimately show ?thesis by simp
qed

lemma py_range_from_step1: "py_range_from a b 1 = [a..<b]"
proof (induction a b "1::nat" rule: py_range_from.induct)
  case (1 a b)
  then show ?case
    by (cases "a < b") (simp_all add: py_range_from.simps [of a] upt_conv_Cons)
qed

lemma py_range_from_column [grid_simps]:
  assumes "i < (c::nat)"
  shows "py_range_from i (r * c) c = map (\<lambda>j. j * c + i) [0..<r]"
proof (cases r)
  case 0
  then show ?thesis by (simp add: py_range_from.simps)
next
  case (Suc r')
  from assms have "i + (r - 1) * c < r * c"
    using grid_pos_less [of r' r i c] Suc by (simp add: add.commute)
  moreover have "r * c \<le> i + r * c" by simp
  ultimately have "py_range_from i (r * c) c = map (\<lambda>k. i + k * c) [0..<r]"
    using assms by (intro py_range_from_le) simp_all
  then show ?thesis by (simp add: add.commute)
qed

text \<open>
  The concatenation of \<open>c\<close> rows of \<open>r\<close> elements each, the element of row \<open>i\<close>
  and column \<open>j\<close> sitting at \<open>i * r + j\<close>.
\<close>

definition rows :: "nat \<Rightarrow> nat \<Rightarrow> (nat \<Rightarrow> nat \<Rightarrow> 'a) \<Rightarrow> 'a list" where
  "rows c r f = concat (map (\<lambda>i. map (f i) [0..<r]) [0..<c])"

lemma length_rows [simp]: "length (rows c r f) = c * r"
  by (induction c) (simp_all add: rows_def)

lemma rows_Suc: "rows (Suc c) r f = rows c r f @ map (f c) [0..<r]"
  by (simp add: rows_def)

lemma nth_rows [grid_simps]:
  "i < c \<Longrightarrow> j < r \<Longrightarrow> rows c r f ! (i * r + j) = f i j"
proof (induction c)
  case 0
  then show ?case by simp
next
  case (Suc c)
  show ?case
  proof (cases "i < c")
    case True
    with Suc have "i * r + j < c * r"
      by (simp add: grid_pos_less)
    with True Suc show ?thesis by (simp add: rows_Suc nth_append)
  next
    case False
    with Suc.prems have "i = c" by simp
    with Suc.prems show ?thesis by (simp add: rows_Suc nth_append)
  qed
qed

lemma nth_rows_split:
  assumes "k < c * r"
  shows "rows c r f ! k = f (k div r) (k mod r)"
proof -
  from assms have "k div r < c \<and> k mod r < r \<and> k = (k div r) * r + k mod r"
    by (intro grid_pos_split)
  then show ?thesis by (metis nth_rows)
qed

lemma rows_map: "map g (rows c r f) = rows c r (\<lambda>i j. g (f i j))"
  by (simp add: rows_def map_concat comp_def)

lemma set_rows: "set (rows c r f) = {f i j | i j. i < c \<and> j < r}"
  by (auto simp: rows_def) blast

lemma rows_cong:
  "(\<And>i j. i < c \<Longrightarrow> j < r \<Longrightarrow> f i j = g i j) \<Longrightarrow> rows c r f = rows c r g"
  unfolding rows_def by (auto intro!: arg_cong [where f = concat] map_cong)

lemma rows_eqI:
  assumes "length xs = c * r" and "\<And>i j. i < c \<Longrightarrow> j < r \<Longrightarrow> xs ! (i * r + j) = f i j"
  shows "rows c r f = xs"
proof (rule nth_equalityI)
  show "length (rows c r f) = length xs" using assms(1) by simp
next
  fix k assume "k < length (rows c r f)"
  then have "k < c * r" by simp
  then have k: "k div r < c \<and> k mod r < r \<and> k = (k div r) * r + k mod r"
    by (rule grid_pos_split)
  with \<open>k < c * r\<close> show "rows c r f ! k = xs ! k"
    by (metis assms(2) nth_rows_split)
qed

lemma chunk_rows:
  assumes "i < c"
  shows "take r (drop (i * r) (rows c r f)) = map (f i) [0..<r]"
proof (rule nth_equalityI)
  have "Suc i * r \<le> c * r" using assms by (intro mult_le_mono1) simp
  then show "length (take r (drop (i * r) (rows c r f))) = length (map (f i) [0..<r])"
    by simp
next
  fix j assume "j < length (take r (drop (i * r) (rows c r f)))"
  then have "j < r" by simp
  have "i * r + j < c * r" using grid_pos_less [OF assms \<open>j < r\<close>] by (simp add: mult.commute)
  then show "take r (drop (i * r) (rows c r f)) ! j = map (f i) [0..<r] ! j"
    using \<open>j < r\<close> assms by (simp add: nth_rows)
qed

text \<open>Row-major concatenation of a list repeated \<open>r\<close> times, and of each element repeated.\<close>

lemma concat_replicate_rows: "concat (replicate r xs) = rows r (length xs) (\<lambda>_ i. xs ! i)"
proof -
  have "map (\<lambda>_. map (\<lambda>i. xs ! i) [0..<length xs]) [0..<r] = replicate r xs"
    by (simp add: map_nth map_replicate_const)
  then show ?thesis by (simp add: rows_def)
qed

lemma concat_map_replicate_rows:
  "concat (map (replicate r) xs) = rows (length xs) r (\<lambda>i _. xs ! i)"
proof -
  have "map (\<lambda>i. map (\<lambda>_. xs ! i) [0..<r]) [0..<length xs] = map (replicate r) xs"
    by (rule nth_equalityI) (simp_all add: map_replicate_const)
  then show ?thesis by (simp add: rows_def)
qed

text \<open>
  The transposed index table \<open>i * r + j \<mapsto> j * c + i\<close> lists every position of an
  \<open>r * c\<close> grid exactly once, so reading a list through it permutes the list.
\<close>

lemma distinct_rows_transposed: "distinct (rows c r (\<lambda>i j. j * c + i))"
proof -
  have "k = k'" if "k < c * r" "k' < c * r"
    and eq: "rows c r (\<lambda>i j. j * c + i) ! k = rows c r (\<lambda>i j. j * c + i) ! k'" for k k'
  proof -
    from that have s: "k div r < c \<and> k mod r < r \<and> k = (k div r) * r + k mod r"
      and s': "k' div r < c \<and> k' mod r < r \<and> k' = (k' div r) * r + k' mod r"
      by (simp_all add: grid_pos_split)
    from eq that have "(k mod r) * c + k div r = (k' mod r) * c + k' div r"
      by (simp add: nth_rows_split)
    with s s' have "k mod r = k' mod r \<and> k div r = k' div r"
      by (simp add: grid_pos_inj)
    with s s' show "k = k'" by metis
  qed
  then show ?thesis by (auto simp: distinct_conv_nth)
qed

lemma set_rows_transposed: "set (rows c r (\<lambda>i j. j * c + i)) = {0..<r * c}"
proof -
  have "\<exists>i j. k = j * c + i \<and> i < c \<and> j < r" if "k < r * c" for k
    using grid_pos_split [OF that] by blast
  then show ?thesis by (auto simp: set_rows grid_pos_less)
qed

lemma mset_rows_transposed: "mset (rows c r (\<lambda>i j. j * c + i)) = mset [0..<r * c]"
  by (metis distinct_rows_transposed distinct_upt mset_set_set set_rows_transposed set_upt)

lemma mset_map_nth_perm:
  assumes "mset idx = mset [0..<length xs]"
  shows "mset (map (\<lambda>k. xs ! k) idx) = mset xs"
proof -
  have "mset (map (\<lambda>k. xs ! k) idx) = image_mset (\<lambda>k. xs ! k) (mset [0..<length xs])"
    by (simp only: mset_map assms)
  also have "\<dots> = mset (map (\<lambda>k. xs ! k) [0..<length xs])"
    by (simp only: mset_map)
  finally show ?thesis by (simp add: map_nth)
qed

lemma zip_rows: "zip (rows c r f) (rows c r g) = rows c r (\<lambda>i j. (f i j, g i j))"
proof (rule rows_eqI [symmetric])
  show "length (zip (rows c r f) (rows c r g)) = c * r" by simp
next
  fix i j assume "i < c" "j < r"
  moreover then have "i * r + j < c * r" using grid_pos_less [of i c j r] by (simp add: mult.commute)
  ultimately show "zip (rows c r f) (rows c r g) ! (i * r + j) = (f i j, g i j)"
    by (simp add: nth_rows)
qed

end
