(* ===== verification/Regroup.thy ===== *)
theory Regroup
  imports Prelude
begin

text \<open>
  The batch regrouping of \<open>train()\<close> in \<open>src/TTS/bin/train_encoder.py\<close>. The
  \<open>PerfectBatchSampler\<close> delivers a batch of \<open>U * C\<close> utterances round-robin over the
  \<open>C\<close> classes of the batch (\<open>[3,2,1,3,2,1]\<close>); lines 84--85 reorder it class-major
  (\<open>[3,3,2,2,1,1]\<close>) by viewing it as a \<open>U \<times> C\<close> grid, transposing and flattening.
  The loss at line 119 then views the model's outputs as \<open>C\<close> groups of \<open>N // C\<close>.
  A tensor is modelled by the list of its rows along the batch dimension (a label, or the
  feature matrix of one utterance): \<open>view\<close>, \<open>transpose\<close> and \<open>reshape\<close> only
  move rows, never look into them.
\<close>

section \<open>Definitions\<close>

text \<open>
  \<open>tensor.view(r, c)\<close> on a batch of \<open>N\<close> rows: \<open>r\<close> rows of \<open>c\<close>
  consecutive elements, or a \<open>RuntimeError\<close> when \<open>r * c \<noteq> N\<close>.
\<close>

definition view :: "nat \<Rightarrow> nat \<Rightarrow> 'a list \<Rightarrow> 'a list list result" where
  "view r c xs =
     (if length xs = r * c then Inr (map (\<lambda>j. take c (drop (j * c) xs)) [0..<r])
      else Inl RuntimeError)"

text \<open>
  Lines 84--85: \<open>torch.transpose(x.view(U, C), 0, 1).reshape(x.shape)\<close>; the
  reshape back to the batch's shape flattens the transposed grid.
\<close>

definition regroup :: "nat \<Rightarrow> nat \<Rightarrow> 'a list \<Rightarrow> 'a list result" where
  "regroup u c xs = bind_result (view u c xs) (\<lambda>g. Inr (concat (transpose g)))"

text \<open>
  Lines 89--96, the (disabled) check that the transposition agrees with a direct loop: it
  visits \<open>labels[i]\<close> for \<open>j\<close> in \<open>range(0, C, 1)\<close> and \<open>i\<close> in
  \<open>range(j, len(labels), C)\<close>, comparing the \<open>idx\<close>-th visited element with
  \<open>labels_converted[idx]\<close>. The model is the sequence of visited elements; the inner
  range is only reached with \<open>C > 0\<close>, so its zero-step error cannot occur.
\<close>

definition regroup_ref :: "nat \<Rightarrow> 'a list \<Rightarrow> 'a list" where
  "regroup_ref c xs =
     concat (map (\<lambda>j. map (\<lambda>i. xs ! i) (py_range_from j (length xs) c)) (py_range_from 0 c 1))"

text \<open>
  Line 119: \<open>outputs.view(C, outputs.shape[0] // C, -1)\<close>, the grouping handed to the
  loss; \<open>//\<close> by zero raises before the view.
\<close>

definition group_by_class :: "nat \<Rightarrow> 'a list \<Rightarrow> 'a list list result" where
  "group_by_class c outs =
     (if c = 0 then Inl ZeroDivisionError else view c (length outs div c) outs)"

text \<open>
  The order in which the sampler (\<open>PerfectBatchSampler\<close>, not in the sources) lays out
  one batch: \<open>U\<close> rounds over the batch's classes \<open>cls\<close>, one utterance per class
  per round.
\<close>

definition sampler_order :: "nat \<Rightarrow> 'c list \<Rightarrow> 'c list" where
  "sampler_order u cls = concat (replicate u cls)"

section \<open>The grid form of the regrouping\<close>

lemma view_Inr:
  "length xs = r * c \<Longrightarrow> view r c xs = Inr (map (\<lambda>j. take c (drop (j * c) xs)) [0..<r])"
  by (simp add: view_def)

lemma view_Inl [simp]: "length xs \<noteq> r * c \<Longrightarrow> view r c xs = Inl RuntimeError"
  by (simp add: view_def)

lemma view_cell:
  assumes "length xs = r * c" and "j < r" and "i < c"
  shows "drop (j * c) xs ! i = xs ! (j * c + i)"
proof -
  from assms have "j * c + i < length xs" by (simp add: grid_pos_less)
  then show ?thesis by (simp add: add.commute)
qed

lemma view_row_length:
  assumes "length xs = r * c" and "j < r"
  shows "length (take c (drop (j * c) xs)) = c"
proof -
  from assms(2) have "Suc j * c \<le> r * c" by (intro mult_le_mono1) simp
  with assms(1) have "c \<le> length (drop (j * c) xs)" by simp
  then show ?thesis by simp
qed

text \<open>
  The result of the regrouping: the element at column \<open>i\<close>, row \<open>j\<close> of the sampler's
  grid moves to position \<open>i * U + j\<close>.
\<close>

lemma regroup_rows:
  assumes len: "length xs = u * c"
  shows "regroup u c xs = Inr (rows c u (\<lambda>i j. xs ! (j * c + i)))"
proof (cases u)
  case 0
  with len show ?thesis by (simp add: regroup_def view_def rows_def)
next
  case (Suc u')
  let ?g = "map (\<lambda>j. take c (drop (j * c) xs)) [0..<u]"
  have rect: "transpose ?g = map (\<lambda>i. map (\<lambda>j. ?g ! j ! i) [0..<length ?g]) [0..<c]"
  proof (rule transpose_rectangle)
    show "?g = [] \<Longrightarrow> c = 0" using Suc by (simp del: upt_Suc)
  next
    fix j assume "j < length ?g"
    then have "j < u" by simp
    then show "length (?g ! j) = c"
      using view_row_length [OF len \<open>j < u\<close>] by (simp del: length_take)
  qed
  have "map (\<lambda>i. map (\<lambda>j. ?g ! j ! i) [0..<u]) [0..<c]
        = map (\<lambda>i. map (\<lambda>j. xs ! (j * c + i)) [0..<u]) [0..<c]"
    by (intro map_cong refl) (simp add: view_cell [OF len])
  with rect show ?thesis
    by (simp add: regroup_def view_Inr [OF len] rows_def)
qed

lemma regroup_Inl: "length xs \<noteq> u * c \<Longrightarrow> regroup u c xs = Inl RuntimeError"
  by (simp add: regroup_def)

lemma regroup_Inr_length: "regroup u c xs = Inr ys \<Longrightarrow> length xs = u * c"
  by (cases "length xs = u * c") (simp_all add: regroup_Inl)

lemma regroup_Inr_conv:
  "regroup u c xs = Inr ys \<longleftrightarrow> length xs = u * c \<and> ys = rows c u (\<lambda>i j. xs ! (j * c + i))"
proof
  assume h: "regroup u c xs = Inr ys"
  then have len: "length xs = u * c" by (rule regroup_Inr_length)
  with h show "length xs = u * c \<and> ys = rows c u (\<lambda>i j. xs ! (j * c + i))"
    by (simp add: regroup_rows)
next
  assume "length xs = u * c \<and> ys = rows c u (\<lambda>i j. xs ! (j * c + i))"
  then show "regroup u c xs = Inr ys" by (simp add: regroup_rows)
qed

lemma regroup_nth:
  assumes "regroup u c xs = Inr ys" and "i < c" and "j < u"
  shows "ys ! (i * u + j) = xs ! (j * c + i)"
  using assms by (simp add: regroup_Inr_conv nth_rows)

lemma regroup_index_map:
  "regroup u c xs = Inr ys \<Longrightarrow> ys = map (\<lambda>k. xs ! k) (rows c u (\<lambda>i j. j * c + i))"
  by (simp add: regroup_Inr_conv rows_map)

lemma regroup_zip:
  assumes "regroup u c xs = Inr xs'" and "regroup u c ys = Inr ys'"
  shows "regroup u c (zip xs ys) = Inr (zip xs' ys')"
proof -
  from assms have lx: "length xs = u * c" and ly: "length ys = u * c"
    and xs': "xs' = rows c u (\<lambda>i j. xs ! (j * c + i))"
    and ys': "ys' = rows c u (\<lambda>i j. ys ! (j * c + i))"
    by (simp_all add: regroup_Inr_conv)
  have "rows c u (\<lambda>i j. zip xs ys ! (j * c + i))
        = rows c u (\<lambda>i j. (xs ! (j * c + i), ys ! (j * c + i)))"
    by (rule rows_cong) (simp add: lx ly grid_pos_less)
  with lx ly show ?thesis
    by (simp add: regroup_rows xs' ys' zip_rows)
qed

lemma group_by_class_rows:
  assumes "0 < c"
  shows "group_by_class c (rows c u f) = Inr (map (\<lambda>i. map (f i) [0..<u]) [0..<c])"
proof -
  from assms have "length (rows c u f) div c = u" by simp
  with assms show ?thesis
    by (auto simp: group_by_class_def view_Inr chunk_rows intro!: map_cong)
qed

lemma regroup_ref_rows:
  assumes len: "length xs = u * c"
  shows "regroup_ref c xs = rows c u (\<lambda>i j. xs ! (j * c + i))"
proof -
  have eq: "map (\<lambda>j. map (\<lambda>i. xs ! i) (py_range_from j (u * c) c)) [0..<c]
        = map (\<lambda>i. map (\<lambda>j. xs ! (j * c + i)) [0..<u]) [0..<c]"
    by (rule map_cong) (simp_all add: py_range_from_column)
  show ?thesis
    by (simp only: regroup_ref_def len py_range_from_step1 rows_def eq)
qed

lemma sampler_order_rows: "sampler_order u cls = rows u (length cls) (\<lambda>_ i. cls ! i)"
  by (simp add: sampler_order_def concat_replicate_rows)


lemma regroup_mset_eq: "regroup u c xs = Inr ys \<Longrightarrow> mset ys = mset xs"
proof -
  assume h: "regroup u c xs = Inr ys"
  then have "length xs = u * c" by (rule regroup_Inr_length)
  then have "mset (rows c u (\<lambda>i j. j * c + i)) = mset [0..<length xs]"
    by (simp add: mset_rows_transposed)
  with regroup_index_map [OF h] show ?thesis
    by (simp only: mset_map_nth_perm)
qed

section \<open>Properties of the regrouping\<close>

text \<open>
  C1. The regrouping does what the comment at line 83 says: a batch laid out round-robin
  over the classes \<open>cls\<close> by the sampler (\<open>[3,2,1,3,2,1]\<close>) comes out class-major,
  each class's \<open>U\<close> utterances contiguous and the classes in the sampler's order
  (\<open>[3,3,2,2,1,1]\<close>).
\<close>

theorem regroup_sampler_order:
  "regroup u (length cls) (sampler_order u cls) = Inr (concat (map (replicate u) cls))"
proof -
  have len: "length (sampler_order u cls) = u * length cls"
    by (simp add: sampler_order_rows)
  have "rows (length cls) u (\<lambda>i j. sampler_order u cls ! (j * length cls + i))
        = rows (length cls) u (\<lambda>i _. cls ! i)"
    by (rule rows_cong) (simp add: sampler_order_rows nth_rows)
  then show ?thesis
    by (simp add: regroup_rows [OF len] concat_map_replicate_rows)
qed

text \<open>
  C2. The regrouping is undone by the regrouping with the two dimensions swapped: viewing
  the class-major batch as \<open>C \<times> U\<close> and transposing gives back the sampler's batch.
\<close>

theorem regroup_roundtrip: "regroup u c xs = Inr ys \<Longrightarrow> regroup c u ys = Inr xs"
proof -
  assume "regroup u c xs = Inr ys"
  then have len: "length xs = u * c" and ys: "ys = rows c u (\<lambda>i j. xs ! (j * c + i))"
    by (simp_all add: regroup_Inr_conv)
  have "rows u c (\<lambda>i j. ys ! (j * u + i)) = xs"
  proof (rule rows_eqI)
    show "length xs = u * c" by (rule len)
  next
    fix j i assume "j < u" "i < c"
    then show "xs ! (j * c + i) = ys ! (i * u + j)" by (simp add: ys nth_rows)
  qed
  moreover have "length ys = c * u" by (simp add: ys)
  ultimately show ?thesis by (simp add: regroup_rows)
qed

theorem regroup_roundtrip_witness:
  "regroup 2 3 [3, 2, 1, 3, 2, 1 :: nat] = Inr [3, 3, 2, 2, 1, 1]
   \<and> regroup 3 2 [3, 3, 2, 2, 1, 1 :: nat] = Inr [3, 2, 1, 3, 2, 1]"
proof -
  have h: "regroup 2 3 [3, 2, 1, 3, 2, 1 :: nat] = Inr [3, 3, 2, 2, 1, 1]"
    by (simp add: regroup_def view_def upt_rec)
  show ?thesis using h regroup_roundtrip [OF h] by simp
qed

text \<open>
  C3. The regrouping is a permutation of the batch: no utterance is lost or duplicated
  (the multiset of rows is unchanged).
\<close>

theorem regroup_permutes: "regroup u c xs = Inr ys \<Longrightarrow> mset ys = mset xs"
  by (rule regroup_mset_eq)

theorem regroup_permutes_witness:
  "regroup 2 2 [1, 2, 3, 4 :: nat] = Inr [1, 3, 2, 4] \<and> mset [1, 3, 2, 4 :: nat] = mset [1, 2, 3, 4]"
proof -
  have h: "regroup 2 2 [1, 2, 3, 4 :: nat] = Inr [1, 3, 2, 4]"
    by (simp add: regroup_def view_def upt_rec)
  show ?thesis using h regroup_permutes [OF h] by simp
qed

text \<open>
  C5. The transposition agrees with the explicit double loop of the disabled check at
  lines 89--96 on every batch of the configured size, so that check never reports
  \<open>Invalid\<close>.
\<close>

theorem regroup_matches_check: "length xs = u * c \<Longrightarrow> regroup u c xs = Inr (regroup_ref c xs)"
  by (simp only: regroup_rows regroup_ref_rows)

theorem regroup_matches_check_witness:
  "length [3, 2, 1, 3, 2, 1 :: nat] = 2 * 3
   \<and> regroup 2 3 [3, 2, 1, 3, 2, 1 :: nat] = Inr (regroup_ref 3 [3, 2, 1, 3, 2, 1])"
  using regroup_matches_check [of "[3, 2, 1, 3, 2, 1 :: nat]" 2 3] by simp

text \<open>
  C6. The loss at line 119 sees the class-major batch as \<open>C\<close> groups; group \<open>i\<close>
  holds exactly the utterances the sampler placed in column \<open>i\<close> of its grid, that is the
  \<open>U\<close> utterances of the \<open>i\<close>-th class, in the order of the sampler's rounds.
\<close>

theorem loss_groups_are_sampler_columns:
  assumes "0 < c" and "regroup u c xs = Inr ys"
  shows "group_by_class c ys = Inr (map (\<lambda>i. map (\<lambda>j. xs ! (j * c + i)) [0..<u]) [0..<c])"
proof -
  from assms(2) have "ys = rows c u (\<lambda>i j. xs ! (j * c + i))"
    by (simp add: regroup_Inr_conv)
  with assms(1) show ?thesis by (simp add: group_by_class_rows)
qed

theorem loss_groups_are_sampler_columns_witness:
  "regroup 2 3 [11, 21, 31, 12, 22, 32 :: nat] = Inr [11, 12, 21, 22, 31, 32]
   \<and> group_by_class 3 [11, 12, 21, 22, 31, 32 :: nat] = Inr [[11, 12], [21, 22], [31, 32]]"
proof -
  have h: "regroup 2 3 [11, 21, 31, 12, 22, 32 :: nat] = Inr [11, 12, 21, 22, 31, 32]"
    by (simp add: regroup_def view_def upt_rec)
  have "group_by_class 3 [11, 12, 21, 22, 31, 32 :: nat]
        = Inr (map (\<lambda>i. map (\<lambda>j. [11, 21, 31, 12, 22, 32 :: nat] ! (j * 3 + i)) [0..<2]) [0..<3])"
    using loss_groups_are_sampler_columns [OF _ h] by simp
  with h show ?thesis by (simp add: upt_rec)
qed

end
