(* ===== verification/Config.thy ===== *)
theory Config
  imports Prelude
begin

text \<open>
  The configuration schema \<open>BaseEncoderConfig\<close> of
  \<open>src/TTS/encoder/configs/base_encoder_config.py\<close>: its fields with their defaults, the
  three batch-composition fields that default to \<open>MISSING\<close>, and \<open>check_values\<close>,
  which asserts that the model's input dimension equals the number of mel bands. The
  inherited \<open>BaseTrainingConfig\<close> and the \<open>coqpit\<close> machinery (including the
  \<open>super().check_values()\<close> of line 54) are not in the sources and not modelled; a
  \<open>MISSING\<close> field is an error where the code reads it as a number (\<open>required\<close>).
\<close>

section \<open>Data\<close>

text \<open>
  The values a \<open>model_params\<close> or \<open>audio_augmentation\<close> dictionary holds in this
  code: Python \<open>int\<close>, \<open>float\<close>, \<open>str\<close>, \<open>bool\<close>.
\<close>

datatype pval = PInt int | PFloat real | PStr string | PBool bool

text \<open>Only the field of \<open>BaseAudioConfig\<close> the encoder code reads.\<close>

record audio_config =
  num_mels :: int

text \<open>
  The dataclass. A field declared \<open>= MISSING\<close> is \<open>int option\<close>, \<open>None\<close> while
  unset; \<open>model: str = None\<close> is \<open>string option\<close>. \<open>datasets\<close> (a list of
  \<open>BaseDatasetConfig\<close>) is only passed on to the sample loader and is left out.
\<close>

record encoder_config =
  model :: "string option"
  audio :: audio_config
  model_params :: "string \<rightharpoonup> pval"
  audio_augmentation :: "string \<rightharpoonup> pval"
  max_train_step :: int
  loss :: string
  grad_clip :: real
  lr :: real
  lr_decay :: bool
  warmup_steps :: int
  wd :: real
  tb_model_param_stats :: bool
  steps_plot_stats :: int
  checkpoint :: bool
  save_step :: int
  print_step :: int
  num_classes_in_batch :: "int option"
  num_utter_per_class :: "int option"
  num_loader_workers :: "int option"
  skip_classes :: bool
  voice_len :: real

section \<open>Defaults (lines 13--51)\<close>

definition default_model_params :: "string \<rightharpoonup> pval" where
  "default_model_params =
     [''model_name'' \<mapsto> PStr ''lstm'', ''input_dim'' \<mapsto> PInt 80, ''proj_dim'' \<mapsto> PInt 256,
      ''lstm_dim'' \<mapsto> PInt 768, ''num_lstm_layers'' \<mapsto> PInt 3,
      ''use_lstm_with_projection'' \<mapsto> PBool True]"

text \<open>
  The default instance, for a given audio configuration (the defaults of
  \<open>BaseAudioConfig\<close> are not in the sources).
\<close>

definition default_encoder_config :: "audio_config \<Rightarrow> encoder_config" where
  "default_encoder_config a =
     \<lparr>model = None, audio = a, model_params = default_model_params,
      audio_augmentation = Map.empty, max_train_step = 1000000, loss = ''angleproto'',
      grad_clip = 3.0, lr = 0.0001, lr_decay = False, warmup_steps = 4000, wd = 0.000001,
      tb_model_param_stats = False, steps_plot_stats = 10, checkpoint = True,
      save_step = 1000, print_step = 20, num_classes_in_batch = None,
      num_utter_per_class = None, num_loader_workers = None, skip_classes = False,
      voice_len = 1.6\<rparr>"

section \<open>Validation\<close>

text \<open>
  Python's \<open>==\<close> between a dictionary value and an \<open>int\<close>: numbers compare by value,
  \<open>bool\<close> is the \<open>int\<close> 0 or 1, a string is never equal to a number.
\<close>

fun py_eq_int :: "pval \<Rightarrow> int \<Rightarrow> bool" where
  "py_eq_int (PInt n) m = (n = m)"
| "py_eq_int (PFloat r) m = (r = of_int m)"
| "py_eq_int (PBool b) m = ((if b then 1 else 0) = m)"
| "py_eq_int (PStr _) m = False"

text \<open>
  Lines 53--58: \<open>c["model_params"]["input_dim"]\<close> raises \<open>KeyError\<close> when the key is
  absent, and the assertion fails when it differs from \<open>audio.num_mels\<close>.
\<close>

definition check_values :: "encoder_config \<Rightarrow> unit result" where
  "check_values c =
     (case model_params c ''input_dim'' of
        None \<Rightarrow> Inl (KeyError ''input_dim'')
      | Some d \<Rightarrow>
          if py_eq_int d (num_mels (audio c)) then Inr ()
          else Inl (AssertionError
                 '' [!] model input dimendion must be equal to melspectrogram dimension.''))"

text \<open>
  Reading a \<open>MISSING\<close> field where the code uses it as a number: the sentinel is not a
  number, so the operation raises (\<open>TypeError\<close> in Python, reported here as
  \<open>MissingValue\<close> with the field's name).
\<close>

definition required :: "string \<Rightarrow> int option \<Rightarrow> int result" where
  "required name v = (case v of None \<Rightarrow> Inl (MissingValue name) | Some n \<Rightarrow> Inr n)"

lemma required_Some [simp]: "required name (Some n) = Inr n"
  by (simp add: required_def)

lemma required_None [simp]: "required name None = Inl (MissingValue name)"
  by (simp add: required_def)

section \<open>Properties of the validation\<close>

lemma check_values_Inr_iff:
  "check_values c = Inr () \<longleftrightarrow>
     (\<exists>d. model_params c ''input_dim'' = Some d \<and> py_eq_int d (num_mels (audio c)))"
  by (auto simp: check_values_def split: option.splits)

text \<open>
  C7. \<open>check_values\<close> accepts exactly the configurations whose \<open>model_params\<close> has an
  \<open>input_dim\<close> equal (in Python's sense) to \<open>audio.num_mels\<close>.
\<close>

theorem check_values_accepts:
  "check_values c = Inr () \<longleftrightarrow>
     (\<exists>d. model_params c ''input_dim'' = Some d \<and> py_eq_int d (num_mels (audio c)))"
  by (rule check_values_Inr_iff)

text \<open>
  C8. A configuration whose model input dimension differs from the number of mel bands is
  rejected with the assertion's message.
\<close>

theorem check_values_dim_mismatch:
  assumes "model_params c ''input_dim'' = Some (PInt d)" and "d \<noteq> num_mels (audio c)"
  shows "check_values c =
    Inl (AssertionError '' [!] model input dimendion must be equal to melspectrogram dimension.'')"
  using assms by (simp add: check_values_def)

theorem check_values_dim_mismatch_witness:
  "model_params (default_encoder_config \<lparr>num_mels = 40\<rparr>) ''input_dim'' = Some (PInt 80)
   \<and> check_values (default_encoder_config \<lparr>num_mels = 40\<rparr>) =
     Inl (AssertionError '' [!] model input dimendion must be equal to melspectrogram dimension.'')"
proof -
  have h: "model_params (default_encoder_config \<lparr>num_mels = 40\<rparr>) ''input_dim'' = Some (PInt 80)"
    by (simp add: default_encoder_config_def default_model_params_def)
  have "(80::int) \<noteq> num_mels (audio (default_encoder_config \<lparr>num_mels = 40\<rparr>))"
    by (simp add: default_encoder_config_def)
  with h show ?thesis using check_values_dim_mismatch [OF h] by simp
qed

end
