(* ===== verification/Metrics.thy ===== *)
theory Metrics
  imports Prelude
begin

text \<open>
  The running averages of \<open>train()\<close> in \<open>src/TTS/bin/train_encoder.py\<close>, lines
  127--134: the smoothed loss \<open>avg_loss\<close> and the smoothed loader latency
  \<open>avg_loader_time\<close>. Both start at 0 and use 0 as the mark of ``no observation yet'':
  an average that is exactly 0 is replaced by the new sample. Python floats are modelled as
  \<open>real\<close>; the rounding of IEEE doubles is not modelled, so the properties below are
  the identities of lines 128--134 (seed, recurrence, single-worker case), which hold of the
  floating-point evaluation as well, not order bounds, which rounding can break.
\<close>

section \<open>Definitions\<close>

text \<open>Line 128.\<close>

definition ema_loss :: "real \<Rightarrow> real \<Rightarrow> real" where
  "ema_loss avg l = (if avg \<noteq> 0 then 0.01 * l + 0.99 * avg else l)"

text \<open>Line 129: a non-positive worker count counts as one worker.\<close>

definition loader_workers :: "int \<Rightarrow> int" where
  "loader_workers n = (if n > 0 then n else 1)"

text \<open>Lines 130--134, with \<open>w\<close> the worker count of line 129.\<close>

definition ema_loader_time :: "int \<Rightarrow> real \<Rightarrow> real \<Rightarrow> real" where
  "ema_loader_time w avg t =
     (if avg \<noteq> 0 then 1 / real_of_int w * t + real_of_int (w - 1) / real_of_int w * avg else t)"

text \<open>
  The smoothed loss after a sequence of steps, each applying line 128 to the step's loss.
\<close>

fun ema_run :: "real \<Rightarrow> real list \<Rightarrow> real" where
  "ema_run avg [] = avg"
| "ema_run avg (l # ls) = ema_run (ema_loss avg l) ls"

section \<open>Shared facts\<close>

named_theorems ema_simps "evaluation of the running averages"

lemma ema_loss_seed [simp, ema_simps]: "ema_loss 0 l = l"
  by (simp add: ema_loss_def)

lemma ema_loss_step [ema_simps]: "avg \<noteq> 0 \<Longrightarrow> ema_loss avg l = 0.01 * l + 0.99 * avg"
  by (simp add: ema_loss_def)

lemma ema_run_append: "ema_run avg (ls @ ms) = ema_run (ema_run avg ls) ms"
  by (induction ls arbitrary: avg) simp_all

lemma ema_run_snoc: "ema_run avg (ls @ [l]) = ema_loss (ema_run avg ls) l"
  by (simp add: ema_run_append)

section \<open>Properties of the running averages\<close>

text \<open>
  C9. The first loss seeds the smoothed loss exactly, and while the smoothed loss is not
  0 each further loss \<open>l\<close> moves it to \<open>0.01 * l + 0.99 * avg\<close>.
\<close>

theorem ema_first_and_recurrence:
  "ema_run 0 [l0] = l0
   \<and> (ema_run 0 ls \<noteq> 0 \<longrightarrow> ema_run 0 (ls @ [l]) = 0.01 * l + 0.99 * ema_run 0 ls)"
  by (simp add: ema_run_snoc ema_loss_step)

theorem ema_first_and_recurrence_witness:
  "ema_run 0 [2] = 2 \<and> ema_run 0 [2] \<noteq> 0 \<and> ema_run 0 ([2] @ [4]) = 2.02"
proof -
  have "ema_run 0 [2] = 2
     \<and> (ema_run 0 [2] \<noteq> 0 \<longrightarrow> ema_run 0 ([2] @ [4]) = 0.01 * 4 + 0.99 * ema_run 0 [2])"
    by (rule ema_first_and_recurrence)
  then show ?thesis by simp
qed

text \<open>
  C10. The recurrence does not hold for every step: the code tests \<open>avg_loss != 0\<close>
  rather than ``first step'', so whenever the smoothed loss is exactly 0 (a zero first
  loss, or losses that cancel) the next loss replaces it instead of being averaged in.
\<close>

theorem ema_zero_reseeds: "ema_run 0 ls = 0 \<Longrightarrow> ema_run 0 (ls @ [l]) = l"
  by (simp add: ema_run_snoc)

theorem ema_zero_reseeds_witness:
  "ema_run 0 [0] = 0 \<and> ema_run 0 ([0] @ [5]) = 5 \<and> (5::real) \<noteq> 0.01 * 5 + 0.99 * ema_run 0 [0]"
proof -
  have h: "ema_run 0 [0] = 0" by simp
  show ?thesis using h ema_zero_reseeds [OF h, of 5] by simp
qed

text \<open>
  C11. With zero or one loader worker the smoothed loader time is simply the latest loader
  time (smoothing factor 1/1).
\<close>

theorem loader_time_single_worker:
  "n \<le> 1 \<Longrightarrow> ema_loader_time (loader_workers n) avg t = t"
proof -
  assume "n \<le> 1"
  then have "loader_workers n = 1" by (simp add: loader_workers_def)
  then show ?thesis by (simp add: ema_loader_time_def)
qed

theorem loader_time_single_worker_witness:
  "(0::int) \<le> 1 \<and> ema_loader_time (loader_workers 0) 7 2 = 2"
  using loader_time_single_worker [of 0 7 2] by simp

end
