(* ===== verification/TrainLoop.thy ===== *)
theory TrainLoop
  imports Regroup Config Metrics
begin

text \<open>
  The training loop \<open>train()\<close> of \<open>src/TTS/bin/train_encoder.py\<close> (lines 69--171).
  Its state is the record \<open>train_state\<close>: the parameters the optimizer updates, the
  scheduler's step counter, \<open>global_step\<close>, the running averages, the best-loss
  watermark and the log of what the loop has emitted (dashboard statistics, progress
  lines, best-model checkpoints). One iteration over the data loader is
  \<open>train_step\<close>, built from one definition per block of the loop body in the order of
  the code; \<open>train_loop\<close> runs it over the finite list of batches the loader yields and
  stops at the \<open>break\<close> of line 167 or when the loader is exhausted. The neural model,
  loss and optimizer are the interface \<open>learner\<close>; the wall-clock readings of
  \<open>time.time()\<close> are inputs carried with each batch.
\<close>

section \<open>The interface to the framework\<close>

text \<open>
  \<open>forward\<close> is \<open>model(inputs)\<close> (line 116), \<open>criterion\<close> the loss value of
  \<open>criterion(outputs.view(...), labels)\<close> (line 119), and \<open>backward_step\<close> the
  gradient step of lines 108 and 120--122 (\<open>zero_grad\<close>, \<open>backward\<close>,
  \<open>check_update\<close> clipping to \<open>grad_clip\<close>, \<open>optimizer.step\<close>): the new
  parameters and the gradient norm.
\<close>

record ('p, 'x, 'l, 'e) learner =
  forward :: "'p \<Rightarrow> 'x list \<Rightarrow> 'e list"
  criterion :: "'e list list \<Rightarrow> 'l list \<Rightarrow> real"
  backward_step :: "'p \<Rightarrow> 'x list \<Rightarrow> 'l list \<Rightarrow> 'p \<times> real"

text \<open>
  One item of the data loader (\<open>inputs, labels = data\<close>, line 82) with the two time
  differences the iteration measures: \<open>loader_time\<close> (line 102) and \<open>step_time\<close>
  (line 124).
\<close>

record ('x, 'l) fetched =
  batch_inputs :: "'x list"
  batch_labels :: "'l list"
  fetch_time :: real
  compute_time :: real

text \<open>What the loop emits, stamped with the global step.\<close>

datatype event =
    TrainStats int real real real real
      \<comment> \<open>line 146: step, avg loss, grad norm, step time, avg loader time\<close>
  | TrainFigures int
      \<comment> \<open>line 150: the embedding plot\<close>
  | ProgressLine int real real
      \<comment> \<open>line 153: step, loss, avg loss\<close>
  | BestModelSaved int real
      \<comment> \<open>\<open>save_best_model\<close> writing a checkpoint: step, loss\<close>

record 'p train_state =
  params :: 'p
  scheduler :: "int option"
  global_step :: int
  epoch_time :: real
  best_loss :: ext_real
  avg_loss :: real
  avg_loss_all :: real
  avg_loader_time :: real
  events :: "event list"

section \<open>The loop body\<close>

text \<open>Lines 70--76: the state at entry (\<open>best_loss = float("inf")\<close>).\<close>

definition init_state :: "'p \<Rightarrow> int option \<Rightarrow> int \<Rightarrow> 'p train_state" where
  "init_state p sch gs =
     \<lparr>params = p, scheduler = sch, global_step = gs, epoch_time = 0, best_loss = None,
      avg_loss = 0, avg_loss_all = 0, avg_loader_time = 0, events = []\<rparr>"

text \<open>
  A batch dimension read from the configuration for \<open>view\<close>: an unset field raises,
  and \<open>view\<close> rejects negative sizes (the inferred size \<open>-1\<close> is not modelled).
\<close>

definition batch_dim :: "string \<Rightarrow> int option \<Rightarrow> nat result" where
  "batch_dim name v =
     bind_result (required name v) (\<lambda>n. if n < 0 then Inl RuntimeError else Inr (nat n))"

text \<open>Lines 82--85: regroup the labels, then the inputs; returns \<open>C\<close> and the batch.\<close>

definition prepare_batch ::
    "encoder_config \<Rightarrow> ('x, 'l) fetched \<Rightarrow> (nat \<times> 'x list \<times> 'l list) result" where
  "prepare_batch c f =
     bind_result (batch_dim ''num_utter_per_class'' (num_utter_per_class c)) (\<lambda>u.
     bind_result (batch_dim ''num_classes_in_batch'' (num_classes_in_batch c)) (\<lambda>k.
     bind_result (regroup u k (batch_labels f)) (\<lambda>ls.
     bind_result (regroup u k (batch_inputs f)) (\<lambda>xs. Inr (k, xs, ls)))))"

text \<open>
  Lines 106--107: with \<open>lr_decay\<close> the scheduler (NoamLR's \<open>last_epoch\<close>) advances;
  \<open>scheduler.step()\<close> on \<open>None\<close> raises.
\<close>

definition schedule_step :: "encoder_config \<Rightarrow> int option \<Rightarrow> int option result" where
  "schedule_step c sch =
     (if lr_decay c then (case sch of None \<Rightarrow> Inl AttributeError | Some e \<Rightarrow> Inr (Some (e + 1)))
      else Inr sch)"

text \<open>Lines 108--122: forward pass, grouping for the loss, loss, gradient step.\<close>

definition compute_loss ::
    "('p, 'x, 'l, 'e) learner \<Rightarrow> nat \<Rightarrow> 'p \<Rightarrow> 'x list \<Rightarrow> 'l list \<Rightarrow> (real \<times> 'p \<times> real) result" where
  "compute_loss L k p xs ls =
     bind_result (group_by_class k (forward L p xs)) (\<lambda>g.
       Inr (criterion L g ls, backward_step L p xs ls))"

text \<open>
  Lines 137--159: the dashboard statistics and figure every \<open>steps_plot_stats\<close> steps,
  the progress line every \<open>print_step\<close> steps; \<open>%\<close> by zero raises.
\<close>

definition log_step ::
    "encoder_config \<Rightarrow> int \<Rightarrow> real \<Rightarrow> real \<Rightarrow> real \<Rightarrow> real \<Rightarrow> real \<Rightarrow> event list result" where
  "log_step c gs l al gn st alt =
     bind_result (py_mod gs (steps_plot_stats c)) (\<lambda>m1.
     bind_result (py_mod gs (print_step c)) (\<lambda>m2.
       Inr ((if m1 = 0 then [TrainStats gs al gn st alt, TrainFigures gs] else [])
            @ (if m2 = 0 then [ProgressLine gs l al] else []))))"

text \<open>
  \<open>save_best_model\<close> (not in the sources; modelled from the spec): a checkpoint is
  written when the loss is below the watermark, which then moves to it.
\<close>

definition save_best_model :: "real \<Rightarrow> ext_real \<Rightarrow> int \<Rightarrow> ext_real \<times> event list" where
  "save_best_model l best gs =
     (if lt_ext l best then (Some l, [BestModelSaved gs l]) else (best, []))"

text \<open>Line 162, with Python's short-circuit \<open>or\<close>.\<close>

definition checkpoint_due :: "encoder_config \<Rightarrow> int \<Rightarrow> bool result" where
  "checkpoint_due c gs =
     (if max_train_step c \<le> gs then Inr True
      else bind_result (py_mod gs (save_step c)) (\<lambda>m. Inr (m = 0)))"

text \<open>
  Lines 103 and 124--134: the new step number, parameters and scheduler, the epoch time
  and the two running averages (\<open>nw\<close> is \<open>c.num_loader_workers\<close>).
\<close>

definition update_averages ::
    "'p train_state \<Rightarrow> 'p \<Rightarrow> int option \<Rightarrow> real \<Rightarrow> int \<Rightarrow> ('x, 'l) fetched \<Rightarrow> 'p train_state" where
  "update_averages s p' sch l nw f =
     s\<lparr>params := p', scheduler := sch, global_step := global_step s + 1,
       epoch_time := epoch_time s + compute_time f, avg_loss := ema_loss (avg_loss s) l,
       avg_loader_time := ema_loader_time (loader_workers nw) (avg_loader_time s) (fetch_time f)\<rparr>"

text \<open>
  Lines 162--167: when a checkpoint is due, \<open>save_best_model\<close> with the smoothed loss,
  \<open>avg_loss_all\<close> reset, and the \<open>break\<close> once \<open>max_train_step\<close> is reached.
  The result is the state and whether the loop breaks.
\<close>

definition finish_step :: "encoder_config \<Rightarrow> 'p train_state \<Rightarrow> bool \<Rightarrow> 'p train_state \<times> bool" where
  "finish_step c s due =
     (if due then
        (let (b, sv) = save_best_model (avg_loss s) (best_loss s) (global_step s)
         in (s\<lparr>best_loss := b, avg_loss_all := 0, events := events s @ sv\<rparr>,
             max_train_step c \<le> global_step s))
      else (s, False))"

text \<open>
  One iteration, lines 79--169, composed as the code composes the blocks above; line 160
  adds the smoothed loss to \<open>avg_loss_all\<close> after the logging.
\<close>

definition train_step ::
    "encoder_config \<Rightarrow> ('p, 'x, 'l, 'e) learner \<Rightarrow> 'p train_state \<Rightarrow> ('x, 'l) fetched
     \<Rightarrow> ('p train_state \<times> bool) result" where
  "train_step c L s f =
     bind_result (prepare_batch c f) (\<lambda>(k, xs, ls).
     bind_result (schedule_step c (scheduler s)) (\<lambda>sch.
     bind_result (compute_loss L k (params s) xs ls) (\<lambda>(l, p', gn).
     bind_result (required ''num_loader_workers'' (num_loader_workers c)) (\<lambda>nw.
     let s1 = update_averages s p' sch l nw f in
     bind_result (log_step c (global_step s1) l (avg_loss s1) gn (compute_time f)
                    (avg_loader_time s1)) (\<lambda>evs.
     bind_result (checkpoint_due c (global_step s1)) (\<lambda>due.
       Inr (finish_step c (s1\<lparr>avg_loss_all := avg_loss_all s1 + avg_loss s1,
                              events := events s1 @ evs\<rparr>) due)))))))"

text \<open>Line 78: the iteration over the loader's batches.\<close>

fun train_loop ::
    "encoder_config \<Rightarrow> ('p, 'x, 'l, 'e) learner \<Rightarrow> 'p train_state \<Rightarrow> ('x, 'l) fetched list
     \<Rightarrow> 'p train_state result" where
  "train_loop c L s [] = Inr s"
| "train_loop c L s (f # fs) =
     (case train_step c L s f of
        Inl e \<Rightarrow> Inl e
      | Inr (s', brk) \<Rightarrow> if brk then Inr s' else train_loop c L s' fs)"

text \<open>\<open>train()\<close> as a whole: it returns \<open>(avg_loss, global_step)\<close> (line 171).\<close>

definition train ::
    "encoder_config \<Rightarrow> ('p, 'x, 'l, 'e) learner \<Rightarrow> 'p \<Rightarrow> int option \<Rightarrow> int
     \<Rightarrow> ('x, 'l) fetched list \<Rightarrow> (real \<times> int) result" where
  "train c L p sch gs fs =
     bind_result (train_loop c L (init_state p sch gs) fs) (\<lambda>s. Inr (avg_loss s, global_step s))"


section \<open>Preconditions of a run\<close>

text \<open>
  What a run needs from the configuration and the scheduler to finish without an
  exception: both batch dimensions set (one utterance count \<open>\<ge> 0\<close>, at least one
  class), the worker count set, the three cadences non-zero, and a scheduler whenever
  \<open>lr_decay\<close> is on.
\<close>

definition loop_ready :: "encoder_config \<Rightarrow> 'p train_state \<Rightarrow> bool" where
  "loop_ready c s \<longleftrightarrow>
     (case (num_utter_per_class c, num_classes_in_batch c) of
        (Some u, Some k) \<Rightarrow> 0 \<le> u \<and> 0 < k
      | _ \<Rightarrow> False)
     \<and> num_loader_workers c \<noteq> None \<and> steps_plot_stats c \<noteq> 0 \<and> print_step c \<noteq> 0
     \<and> save_step c \<noteq> 0 \<and> (lr_decay c \<longrightarrow> scheduler s \<noteq> None)"

text \<open>
  The sampler's guarantee (\<open>PerfectBatchSampler\<close> with \<open>drop_last=True\<close>, from the
  spec): every batch holds exactly \<open>U * C\<close> inputs and labels.
\<close>

definition batch_fits :: "encoder_config \<Rightarrow> ('x, 'l) fetched \<Rightarrow> bool" where
  "batch_fits c f \<longleftrightarrow>
     (case (num_utter_per_class c, num_classes_in_batch c) of
        (Some u, Some k) \<Rightarrow>
          length (batch_inputs f) = nat u * nat k \<and> length (batch_labels f) = nat u * nat k
      | _ \<Rightarrow> False)"

section \<open>Observing a run\<close>

text \<open>The step an event is stamped with, and the losses of the checkpoints written.\<close>

fun event_step :: "event \<Rightarrow> int" where
  "event_step (TrainStats gs _ _ _ _) = gs"
| "event_step (TrainFigures gs) = gs"
| "event_step (ProgressLine gs _ _) = gs"
| "event_step (BestModelSaved gs _) = gs"

fun saved_loss :: "event \<Rightarrow> real list" where
  "saved_loss (BestModelSaved _ l) = [l]"
| "saved_loss _ = []"

definition saved_losses :: "event list \<Rightarrow> real list" where
  "saved_losses evs = concat (map saved_loss evs)"

text \<open>
  The best-loss watermark agrees with the checkpoints written: their losses strictly
  decrease and the watermark is the last of them (\<open>float("inf")\<close> before the first).
\<close>

definition watermark_ok :: "'p train_state \<Rightarrow> bool" where
  "watermark_ok s \<longleftrightarrow>
     sorted_wrt (>) (saved_losses (events s))
     \<and> best_loss s = (if saved_losses (events s) = [] then None
                      else Some (last (saved_losses (events s))))"

text \<open>
  The states the loop passes through from \<open>s0\<close>, with the break flag of the step that
  produced them: a further iteration (on any batch) happens only after a step that did
  not break.
\<close>

inductive train_reaches ::
    "encoder_config \<Rightarrow> ('p, 'x, 'l, 'e) learner \<Rightarrow> 'p train_state \<Rightarrow> 'p train_state \<Rightarrow> bool \<Rightarrow> bool"
  for c L s0 where
  start: "train_reaches c L s0 s0 False"
| step: "train_reaches c L s0 s False \<Longrightarrow> train_step c L s f = Inr (s', brk) \<Longrightarrow>
           train_reaches c L s0 s' brk"

section \<open>A concrete instance\<close>

text \<open>
  The spec's scenario: two classes per batch, three utterances per class, no loader
  workers, the other fields at their defaults except the step budget and the checkpoint
  cadence. The learner keeps its inputs as embeddings, reports the number of groups as the
  loss and counts its updates; the batch is the sampler's round-robin layout of six
  utterances of classes 1 and 2.
\<close>

definition example_config :: "int \<Rightarrow> int \<Rightarrow> encoder_config" where
  "example_config m sv =
     (default_encoder_config \<lparr>num_mels = 80\<rparr>)
       \<lparr>num_classes_in_batch := Some 2, num_utter_per_class := Some 3,
        num_loader_workers := Some 0, max_train_step := m, save_step := sv\<rparr>"

definition example_learner :: "(nat, nat, nat, nat) learner" where
  "example_learner =
     \<lparr>forward = (\<lambda>p xs. xs), criterion = (\<lambda>g ls. real (length g)),
      backward_step = (\<lambda>p xs ls. (Suc p, 1))\<rparr>"

definition example_batch :: "(nat, nat) fetched" where
  "example_batch =
     \<lparr>batch_inputs = [10, 20, 11, 21, 12, 22], batch_labels = sampler_order 3 [1, 2],
      fetch_time = 0, compute_time = 0\<rparr>"

section \<open>One iteration\<close>

named_theorems step_simps "facts about the blocks of one iteration"

lemmas train_eval =
  train_step_def prepare_batch_def batch_dim_def regroup_def view_def schedule_step_def
  compute_loss_def group_by_class_def log_step_def py_mod_def checkpoint_due_def
  save_best_model_def update_averages_def finish_step_def ema_loss_def ema_loader_time_def
  loader_workers_def init_state_def upt_rec

lemmas example_eval =
  example_config_def example_learner_def example_batch_def default_encoder_config_def
  sampler_order_def numeral_3_eq_3

lemma train_step_Inr:
  "train_step c L s f = Inr r \<longleftrightarrow>
    (\<exists>k xs ls sch l p' gn nw evs due.
       prepare_batch c f = Inr (k, xs, ls) \<and> schedule_step c (scheduler s) = Inr sch \<and>
       compute_loss L k (params s) xs ls = Inr (l, p', gn) \<and>
       required ''num_loader_workers'' (num_loader_workers c) = Inr nw \<and>
       log_step c (global_step s + 1) l (ema_loss (avg_loss s) l) gn (compute_time f)
         (ema_loader_time (loader_workers nw) (avg_loader_time s) (fetch_time f)) = Inr evs \<and>
       checkpoint_due c (global_step s + 1) = Inr due \<and>
       r = finish_step c ((update_averages s p' sch l nw f)
             \<lparr>avg_loss_all := avg_loss_all s + ema_loss (avg_loss s) l,
              events := events s @ evs\<rparr>) due)"
  by (auto simp: train_step_def bind_result_eq_Inr update_averages_def Let_def split: prod.splits)

lemma finish_step_global_step [simp, step_simps]:
  "global_step (fst (finish_step c s due)) = global_step s"
  by (simp add: finish_step_def split: prod.splits)

lemma finish_step_scheduler [simp, step_simps]:
  "scheduler (fst (finish_step c s due)) = scheduler s"
  by (simp add: finish_step_def split: prod.splits)

lemma finish_step_break [step_simps]:
  "snd (finish_step c s due) = (due \<and> max_train_step c \<le> global_step s)"
  by (simp add: finish_step_def split: prod.splits)

lemma checkpoint_due_at_max [step_simps]:
  "checkpoint_due c gs = Inr due \<Longrightarrow> max_train_step c \<le> gs \<Longrightarrow> due"
  by (simp add: checkpoint_due_def)

lemma train_step_counts:
  assumes "train_step c L s f = Inr (s', brk)"
  shows "global_step s' = global_step s + 1 \<and> brk = (max_train_step c \<le> global_step s + 1)"
proof -
  from assms obtain s1 due where
    due: "checkpoint_due c (global_step s + 1) = Inr due"
    and r: "(s', brk) = finish_step c s1 due" and gs: "global_step s1 = global_step s + 1"
    by (auto simp: train_step_Inr update_averages_def)
  from r gs have "global_step s' = global_step s + 1"
    by (metis finish_step_global_step fst_conv)
  moreover from r gs due have "brk = (max_train_step c \<le> global_step s + 1)"
    by (metis finish_step_break checkpoint_due_at_max snd_conv)
  ultimately show ?thesis ..
qed

section \<open>The loop\<close>

text \<open>
  The number of batches the loop consumes: all of them while \<open>max_train_step\<close> is
  ahead, otherwise up to the step that reaches it; at least one (when there is one) even if
  the loop starts at or past \<open>max_train_step\<close>.
\<close>

lemma train_loop_global_step:
  "train_loop c L s fs = Inr s' \<Longrightarrow>
     global_step s' = global_step s + min (int (length fs)) (max 1 (max_train_step c - global_step s))"
proof (induction fs arbitrary: s)
  case Nil
  then show ?case by simp
next
  case (Cons f fs)
  from Cons.prems obtain s1 brk where st: "train_step c L s f = Inr (s1, brk)"
    by (auto split: sum.splits)
  with train_step_counts have gs1: "global_step s1 = global_step s + 1"
    and brk: "brk = (max_train_step c \<le> global_step s + 1)" by blast+
  show ?case
  proof (cases brk)
    case True
    with Cons.prems st have "s' = s1" by simp
    with gs1 brk True show ?thesis by simp
  next
    case False
    with Cons.prems st have "train_loop c L s1 fs = Inr s'" by simp
    then have "global_step s' = global_step s1
        + min (int (length fs)) (max 1 (max_train_step c - global_step s1))"
      by (rule Cons.IH)
    with gs1 brk False show ?thesis by simp
  qed
qed

text \<open>
  C4. Lines 84 and 85 regroup the labels and the features in two separate statements;
  both use the same \<open>view(U, C)\<close> and transposition, so after the regrouping every
  utterance still carries its own label: the (feature, label) pairs of the prepared batch
  are those of the loaded batch, and the two sequences keep their lengths.
\<close>

theorem prepare_batch_keeps_pairs:
  assumes "prepare_batch c f = Inr (k, xs, ls)"
  shows "mset (zip xs ls) = mset (zip (batch_inputs f) (batch_labels f))
     \<and> length xs = length (batch_inputs f) \<and> length ls = length (batch_labels f)"
proof -
  from assms obtain u where ls: "regroup u k (batch_labels f) = Inr ls"
    and xs: "regroup u k (batch_inputs f) = Inr xs"
    by (auto simp: prepare_batch_def batch_dim_def bind_result_eq_Inr split: if_splits)
  from regroup_zip [OF xs ls] have "mset (zip xs ls) = mset (zip (batch_inputs f) (batch_labels f))"
    by (rule regroup_mset_eq)
  moreover from regroup_mset_eq [OF xs] have "length xs = length (batch_inputs f)"
    by (metis size_mset)
  moreover from regroup_mset_eq [OF ls] have "length ls = length (batch_labels f)"
    by (metis size_mset)
  ultimately show ?thesis by blast
qed

theorem prepare_batch_keeps_pairs_witness:
  "prepare_batch (example_config 5 1000) example_batch
     = Inr (2, [10, 11, 12, 20, 21, 22], [1, 1, 1, 2, 2, 2])
   \<and> mset (zip [10, 11, 12, 20, 21, 22 :: nat] [1, 1, 1, 2, 2, 2 :: nat])
     = mset (zip [10, 20, 11, 21, 12, 22] [1, 2, 1, 2, 1, 2])"
proof -
  have h: "prepare_batch (example_config 5 1000) example_batch
     = Inr (2, [10, 11, 12, 20, 21, 22], [1, 1, 1, 2, 2, 2])"
    by (simp add: prepare_batch_def batch_dim_def regroup_def view_def upt_rec example_eval)
  from prepare_batch_keeps_pairs [OF h] have
    "mset (zip [10, 11, 12, 20, 21, 22 :: nat] [1, 1, 1, 2, 2, 2 :: nat])
     = mset (zip (batch_inputs example_batch) (batch_labels example_batch))" by simp
  then show ?thesis using h by (simp add: example_eval)
qed

text \<open>
  C12. Every processed batch advances \<open>global_step\<close> by exactly one, and the loop
  breaks after a batch exactly when the new step has reached \<open>max_train_step\<close>.
\<close>

theorem train_step_advances:
  assumes "train_step c L s f = Inr (s', brk)"
  shows "global_step s' = global_step s + 1 \<and> brk = (max_train_step c \<le> global_step s + 1)"
  using assms by (rule train_step_counts)

theorem train_step_advances_witness:
  "\<exists>s'. train_step (example_config 5 1000) example_learner (init_state 0 None 0) example_batch
          = Inr (s', False) \<and> global_step s' = 1"
proof -
  obtain s' where h: "train_step (example_config 5 1000) example_learner (init_state 0 None 0)
                        example_batch = Inr (s', False)" and s': "global_step s' = 1"
    by (simp add: train_eval example_eval)
  have "global_step s' = global_step (init_state (0::nat) None 0) + 1"
    using train_step_advances [OF h] by simp
  with h show ?thesis by (auto simp: init_state_def)
qed

text \<open>
  C13. Started below \<open>max_train_step\<close> with enough batches, the loop ends with
  \<open>global_step = max_train_step\<close> (the \<open>break\<close> of line 167).
\<close>

theorem train_loop_stops_at_budget:
  assumes "global_step s < max_train_step c"
    and "max_train_step c - global_step s \<le> int (length fs)"
    and "train_loop c L s fs = Inr s'"
  shows "global_step s' = max_train_step c"
  using train_loop_global_step [OF assms(3)] assms(1,2) by simp

theorem train_loop_stops_at_budget_witness:
  "\<exists>s'. train_loop (example_config 5 1000) example_learner (init_state 0 None 0)
          [example_batch, example_batch, example_batch, example_batch, example_batch, example_batch] = Inr s' \<and> global_step s' = 5"
proof -
  obtain s' where h: "train_loop (example_config 5 1000) example_learner (init_state 0 None 0)
                        [example_batch, example_batch, example_batch, example_batch, example_batch, example_batch] = Inr s'"
    by (simp add: train_eval example_eval)
  have "global_step s' = max_train_step (example_config 5 1000)"
    by (rule train_loop_stops_at_budget [OF _ _ h]) (simp_all add: example_eval init_state_def)
  with h show ?thesis by (auto simp: example_eval)
qed

text \<open>
  C14. Started below \<open>max_train_step\<close>, the loop never processes a batch beyond it:
  \<open>global_step\<close> ends at most at \<open>max_train_step\<close>, whatever the number of batches.
\<close>

theorem train_loop_within_budget:
  assumes "global_step s < max_train_step c" and "train_loop c L s fs = Inr s'"
  shows "global_step s' \<le> max_train_step c"
  using train_loop_global_step [OF assms(2)] assms(1) by simp

theorem train_loop_within_budget_witness:
  "\<exists>s'. train_loop (example_config 2 1000) example_learner (init_state 0 None 0)
          [example_batch, example_batch, example_batch] = Inr s' \<and> global_step s' \<le> 2"
proof -
  obtain s' where h: "train_loop (example_config 2 1000) example_learner (init_state 0 None 0)
                        [example_batch, example_batch, example_batch] = Inr s'"
    by (simp add: train_eval example_eval)
  have "global_step s' \<le> max_train_step (example_config 2 1000)"
    by (rule train_loop_within_budget [OF _ h]) (simp add: example_eval init_state_def)
  with h show ?thesis by (auto simp: example_eval)
qed

text \<open>
  C15. When the loader runs out before \<open>max_train_step\<close> is reached, \<open>train()\<close>
  returns after one pass with \<open>global_step\<close> advanced by the number of batches: the
  step budget is not reached (and \<open>main()\<close> calls \<open>train()\<close> only once).
\<close>

theorem train_loop_exhausted:
  assumes "int (length fs) < max_train_step c - global_step s" and "train_loop c L s fs = Inr s'"
  shows "global_step s' = global_step s + int (length fs)"
  using train_loop_global_step [OF assms(2)] assms(1) by simp

theorem train_loop_exhausted_witness:
  "\<exists>s'. train_loop (example_config 5 1000) example_learner (init_state 0 None 0)
          [example_batch, example_batch] = Inr s' \<and> global_step s' = 2"
proof -
  obtain s' where h: "train_loop (example_config 5 1000) example_learner (init_state 0 None 0)
                        [example_batch, example_batch] = Inr s'"
    by (simp add: train_eval example_eval)
  have "global_step s' = global_step (init_state (0::nat) None 0) + int (length [example_batch, example_batch])"
    by (rule train_loop_exhausted [OF _ h]) (simp add: example_eval init_state_def)
  with h show ?thesis by (auto simp: init_state_def)
qed

text \<open>
  C16. A loop entered at or past \<open>max_train_step\<close> (a checkpoint restored at a later
  step) still processes one batch before it breaks: \<open>global_step\<close> ends one past its
  restored value, beyond the budget.
\<close>

theorem train_loop_restored_past_budget:
  assumes "max_train_step c \<le> global_step s" and "fs \<noteq> []" and "train_loop c L s fs = Inr s'"
  shows "global_step s' = global_step s + 1"
proof -
  from assms(2) have "1 \<le> int (length fs)" by (cases fs) simp_all
  with train_loop_global_step [OF assms(3)] assms(1) show ?thesis by simp
qed

theorem train_loop_restored_past_budget_witness:
  "\<exists>s'. train_loop (example_config 5 1000) example_learner (init_state 0 None 7)
          [example_batch, example_batch] = Inr s' \<and> global_step s' = 8"
proof -
  obtain s' where h: "train_loop (example_config 5 1000) example_learner (init_state 0 None 7)
                        [example_batch, example_batch] = Inr s'"
    by (simp add: train_eval example_eval)
  have "global_step s' = global_step (init_state (0::nat) None 7) + 1"
    by (rule train_loop_restored_past_budget [OF _ _ h]) (simp_all add: example_eval init_state_def)
  with h show ?thesis by (auto simp: init_state_def)
qed

section \<open>Runs that return\<close>

lemma prepare_batch_ok:
  assumes "num_utter_per_class c = Some u" "num_classes_in_batch c = Some k" "0 \<le> u" "0 \<le> k"
    and "length (batch_labels f) = nat u * nat k" "length (batch_inputs f) = nat u * nat k"
  shows "\<exists>xs ls. prepare_batch c f = Inr (nat k, xs, ls) \<and> length xs = nat u * nat k"
  using assms by (simp add: prepare_batch_def batch_dim_def regroup_rows mult.commute)

lemma compute_loss_ok:
  assumes "0 < k" and "length (forward L p xs) = u * k"
  shows "\<exists>r. compute_loss L k p xs ls = Inr r"
proof -
  from assms have "length (forward L p xs) div k = u" by simp
  with assms show ?thesis
    by (simp add: compute_loss_def group_by_class_def view_def mult.commute)
qed

lemma log_step_ok:
  "steps_plot_stats c \<noteq> 0 \<Longrightarrow> print_step c \<noteq> 0 \<Longrightarrow> \<exists>evs. log_step c gs l al gn st alt = Inr evs"
  by (simp add: log_step_def py_mod_def)

lemma checkpoint_due_ok: "save_step c \<noteq> 0 \<Longrightarrow> \<exists>due. checkpoint_due c gs = Inr due"
  by (auto simp: checkpoint_due_def py_mod_def)

lemma schedule_step_ok:
  "(lr_decay c \<longrightarrow> sch \<noteq> None) \<Longrightarrow>
     \<exists>sch'. schedule_step c sch = Inr sch' \<and> (lr_decay c \<longrightarrow> sch' \<noteq> None)"
  by (cases sch) (auto simp: schedule_step_def)

lemma train_step_front:
  assumes u: "num_utter_per_class c = Some u" and k: "num_classes_in_batch c = Some k"
    and uk: "0 \<le> u" "0 < k" and sched: "lr_decay c \<longrightarrow> scheduler s \<noteq> None"
    and fits: "batch_fits c f" and fwd: "\<forall>p xs. length (forward L p xs) = length xs"
  shows "\<exists>xs ls sch l p' gn. prepare_batch c f = Inr (nat k, xs, ls)
           \<and> schedule_step c (scheduler s) = Inr sch \<and> (lr_decay c \<longrightarrow> sch \<noteq> None)
           \<and> compute_loss L (nat k) (params s) xs ls = Inr (l, p', gn)"
proof -
  from fits u k have lens: "length (batch_labels f) = nat u * nat k"
    "length (batch_inputs f) = nat u * nat k"
    by (simp_all add: batch_fits_def)
  from prepare_batch_ok [OF u k uk(1) _ lens] uk obtain xs ls
    where prep: "prepare_batch c f = Inr (nat k, xs, ls)" and lxs: "length xs = nat u * nat k"
    by auto
  from schedule_step_ok [OF sched] obtain sch where sch: "schedule_step c (scheduler s) = Inr sch"
    and sch_ok: "lr_decay c \<longrightarrow> sch \<noteq> None"
    by blast
  from fwd lxs have "length (forward L (params s) xs) = nat u * nat k" by simp
  with uk obtain l p' gn where cl: "compute_loss L (nat k) (params s) xs ls = Inr (l, p', gn)"
    using compute_loss_ok [of "nat k" L "params s" xs "nat u" ls] by auto
  from prep sch sch_ok cl show ?thesis by blast
qed

lemma train_step_ok:
  assumes ready: "loop_ready c s" and fits: "batch_fits c f"
    and fwd: "\<forall>p xs. length (forward L p xs) = length xs"
  shows "\<exists>s' brk. train_step c L s f = Inr (s', brk) \<and> loop_ready c s'"
proof -
  from ready obtain u k where u: "num_utter_per_class c = Some u" and k: "num_classes_in_batch c = Some k"
    and uk: "0 \<le> u" "0 < k"
    by (auto simp: loop_ready_def split: option.splits)
  from ready have "lr_decay c \<longrightarrow> scheduler s \<noteq> None" by (simp add: loop_ready_def)
  from train_step_front [OF u k uk this fits fwd] obtain xs ls sch l p' gn where
    prep: "prepare_batch c f = Inr (nat k, xs, ls)" and sch: "schedule_step c (scheduler s) = Inr sch"
    and sch_ok: "lr_decay c \<longrightarrow> sch \<noteq> None"
    and cl: "compute_loss L (nat k) (params s) xs ls = Inr (l, p', gn)"
    by blast
  from ready obtain nw where nw: "required ''num_loader_workers'' (num_loader_workers c) = Inr nw"
    by (auto simp: loop_ready_def required_def split: option.splits)
  let ?al = "ema_loss (avg_loss s) l"
  let ?alt = "ema_loader_time (loader_workers nw) (avg_loader_time s) (fetch_time f)"
  from ready have cad: "steps_plot_stats c \<noteq> 0" "print_step c \<noteq> 0" "save_step c \<noteq> 0"
    by (simp_all add: loop_ready_def)
  from log_step_ok [OF cad(1,2)] obtain evs where evs:
    "log_step c (global_step s + 1) l ?al gn (compute_time f) ?alt = Inr evs"
    by blast
  from checkpoint_due_ok [OF cad(3)] obtain due where
    due: "checkpoint_due c (global_step s + 1) = Inr due"
    by blast
  let ?s1 = "(update_averages s p' sch l nw f)\<lparr>avg_loss_all := avg_loss_all s + ?al,
               events := events s @ evs\<rparr>"
  have step: "train_step c L s f = Inr (finish_step c ?s1 due)"
    unfolding train_step_Inr using prep sch cl nw evs due by blast
  have "scheduler (fst (finish_step c ?s1 due)) = sch"
    by (simp add: update_averages_def)
  with ready sch_ok have "loop_ready c (fst (finish_step c ?s1 due))"
    by (simp add: loop_ready_def)
  with step show ?thesis by (metis prod.collapse)
qed

lemma train_loop_total:
  assumes "loop_ready c s" and "list_all (batch_fits c) fs"
    and "\<forall>p xs. length (forward L p xs) = length xs"
  shows "\<exists>s'. train_loop c L s fs = Inr s'"
  using assms(1,2)
proof (induction fs arbitrary: s)
  case Nil
  then show ?case by simp
next
  case (Cons f fs)
  from Cons.prems(2) have "batch_fits c f" by simp
  from train_step_ok [OF Cons.prems(1) this assms(3)]
  obtain s1 brk where st: "train_step c L s f = Inr (s1, brk)" and r: "loop_ready c s1"
    by blast
  from r Cons.prems(2) obtain s' where "train_loop c L s1 fs = Inr s'"
    using Cons.IH by auto
  with st show ?case by (cases brk) auto
qed

text \<open>
  C17. The loop returns: with a configuration ready for the run, batches of the sampler's
  size and a model that gives one embedding per utterance, \<open>train()\<close> raises no
  exception and produces a final state.
\<close>

theorem train_loop_returns:
  assumes "loop_ready c s" and "list_all (batch_fits c) fs"
    and "\<forall>p xs. length (forward L p xs) = length xs"
  shows "\<exists>s'. train_loop c L s fs = Inr s'"
  using assms by (rule train_loop_total)

theorem train_loop_returns_witness:
  "\<exists>s'. train_loop (example_config 5 1000) example_learner (init_state 0 None 0)
          [example_batch, example_batch] = Inr s'"
proof (rule train_loop_returns)
  show "loop_ready (example_config 5 1000) (init_state (0::nat) None 0)"
    by (simp add: loop_ready_def example_eval)
  show "list_all (batch_fits (example_config 5 1000)) [example_batch, example_batch]"
    by (simp add: batch_fits_def example_eval)
  show "\<forall>p xs. length (forward example_learner p xs) = length xs"
    by (simp add: example_learner_def)
qed

section \<open>What one iteration emits\<close>

lemma saved_losses_append [simp]: "saved_losses (xs @ ys) = saved_losses xs @ saved_losses ys"
  by (simp add: saved_losses_def)

lemma saved_losses_simps [simp]:
  "saved_losses [] = []" "saved_losses [BestModelSaved gs l] = [l]"
  by (simp_all add: saved_losses_def)

lemma log_step_events:
  assumes "log_step c gs l al gn st alt = Inr evs"
  shows "saved_losses evs = [] \<and> (\<forall>e \<in> set evs. event_step e = gs)"
  using assms by (auto simp: log_step_def saved_losses_def bind_result_eq_Inr)

lemma schedule_step_Inr:
  "schedule_step c sch = Inr sch' \<Longrightarrow>
     sch' = (if lr_decay c then map_option (\<lambda>e. e + 1) sch else sch)"
  by (cases sch) (auto simp: schedule_step_def split: if_splits)

text \<open>
  The shape of a successful iteration: the log grows by the logging events of the new step
  and, when a checkpoint is due and the smoothed loss beats the watermark, by the
  checkpoint; the watermark moves exactly then; the scheduler advances with
  \<open>lr_decay\<close>.
\<close>

lemma train_step_shape:
  assumes "train_step c L s f = Inr (s', brk)"
  shows "\<exists>evs sv due. checkpoint_due c (global_step s + 1) = Inr due
     \<and> events s' = events s @ evs @ sv \<and> saved_losses evs = []
     \<and> (\<forall>e \<in> set (evs @ sv). event_step e = global_step s + 1)
     \<and> sv = (if due \<and> lt_ext (avg_loss s') (best_loss s)
             then [BestModelSaved (global_step s + 1) (avg_loss s')] else [])
     \<and> best_loss s' = (if due \<and> lt_ext (avg_loss s') (best_loss s) then Some (avg_loss s')
                       else best_loss s)
     \<and> scheduler s' = (if lr_decay c then map_option (\<lambda>e. e + 1) (scheduler s) else scheduler s)"
proof -
  from assms obtain k xs ls sch l p' gn nw evs due where
    sch: "schedule_step c (scheduler s) = Inr sch"
    and log: "log_step c (global_step s + 1) l (ema_loss (avg_loss s) l) gn (compute_time f)
         (ema_loader_time (loader_workers nw) (avg_loader_time s) (fetch_time f)) = Inr evs"
    and due: "checkpoint_due c (global_step s + 1) = Inr due"
    and r: "(s', brk) = finish_step c ((update_averages s p' sch l nw f)
             \<lparr>avg_loss_all := avg_loss_all s + ema_loss (avg_loss s) l,
              events := events s @ evs\<rparr>) due"
    unfolding train_step_Inr by blast
  from log have ev: "saved_losses evs = [] \<and> (\<forall>e \<in> set evs. event_step e = global_step s + 1)"
    by (rule log_step_events)
  from schedule_step_Inr [OF sch] have "sch = (if lr_decay c then map_option (\<lambda>e. e + 1)
      (scheduler s) else scheduler s)" .
  with r ev due show ?thesis
    by (auto simp: finish_step_def save_best_model_def update_averages_def split: if_splits)
qed

section \<open>Reachable states of the loop\<close>

inductive_cases train_reaches_startE: "train_reaches c L s0 s0 b"

lemma train_loop_reaches_from:
  "train_reaches c L s0 s False \<Longrightarrow> train_loop c L s fs = Inr s' \<Longrightarrow> \<exists>b. train_reaches c L s0 s' b"
proof (induction fs arbitrary: s)
  case Nil
  then show ?case by auto
next
  case (Cons f fs)
  from Cons.prems(2) obtain s1 brk where st: "train_step c L s f = Inr (s1, brk)"
    by (auto split: sum.splits)
  with Cons.prems(1) have r1: "train_reaches c L s0 s1 brk" by (rule train_reaches.step)
  show ?case
  proof (cases brk)
    case True
    with Cons.prems(2) st r1 show ?thesis by auto
  next
    case False
    with Cons.prems(2) st have "train_loop c L s1 fs = Inr s'" by simp
    with r1 False show ?thesis by (intro Cons.IH) simp_all
  qed
qed

lemma train_loop_reaches: "train_loop c L s fs = Inr s' \<Longrightarrow> \<exists>b. train_reaches c L s s' b"
  using train_loop_reaches_from train_reaches.start by blast

text \<open>The loop only ever appends to what was logged before.\<close>

lemma train_reaches_events_append:
  "train_reaches c L s0 s b \<Longrightarrow> \<exists>ys. events s = events s0 @ ys"
proof (induction rule: train_reaches.induct)
  case start
  show ?case by simp
next
  case (step s f s' brk)
  from train_step_shape [OF step.hyps(2)] obtain evs sv
    where "events s' = events s @ evs @ sv" by blast
  with step.IH show ?case by auto
qed

text \<open>
  The best-loss watermark starts at \<open>inf\<close> in every call of \<open>train()\<close>: from a state
  without a watermark, the first step at which a checkpoint is due writes one.
\<close>

lemma train_reaches_first_save:
  assumes "train_reaches c L s0 s b" and "best_loss s0 = None" and "global_step s0 < m"
    and "\<forall>j. global_step s0 < j \<and> j < m \<longrightarrow> checkpoint_due c j = Inr False"
    and "checkpoint_due c m = Inr True"
  shows "global_step s0 \<le> global_step s \<and> (global_step s < m \<longrightarrow> best_loss s = None)
     \<and> (m \<le> global_step s \<longrightarrow> (\<exists>l. BestModelSaved m l \<in> set (events s)))"
  using assms(1)
proof (induction rule: train_reaches.induct)
  case start
  with assms(2,3) show ?case by auto
next
  case (step s f s' brk)
  from train_step_counts [OF step.hyps(2)] have gs: "global_step s' = global_step s + 1" by blast
  from train_step_shape [OF step.hyps(2)] obtain evs sv due
    where due: "checkpoint_due c (global_step s + 1) = Inr due"
    and ev: "events s' = events s @ evs @ sv"
    and sv: "sv = (if due \<and> lt_ext (avg_loss s') (best_loss s)
                   then [BestModelSaved (global_step s + 1) (avg_loss s')] else [])"
    and bl: "best_loss s' = (if due \<and> lt_ext (avg_loss s') (best_loss s) then Some (avg_loss s')
                             else best_loss s)"
    by blast
  consider (before) "global_step s + 1 < m" | (at) "global_step s + 1 = m"
    | (after) "m < global_step s + 1" by linarith
  then show ?case
  proof cases
    case before
    with step.IH assms(4) have "checkpoint_due c (global_step s + 1) = Inr False" by simp
    with due have "\<not> due" by simp
    with before step.IH gs bl show ?thesis by simp
  next
    case at
    with assms(5) due have "due" by simp
    moreover from at step.IH have "best_loss s = None" by simp
    ultimately have "BestModelSaved m (avg_loss s') \<in> set (events s')" using ev sv at by simp
    with gs step.IH at show ?thesis by auto
  next
    case after
    with step.IH obtain l where "BestModelSaved m l \<in> set (events s)" by auto
    with ev gs step.IH after show ?thesis by auto
  qed
qed

lemma sorted_wrt_greater_last:
  assumes "sorted_wrt (>) xs" and "x \<in> set xs"
  shows "last xs \<le> (x::real)"
proof -
  from assms(2) have ne: "xs \<noteq> []" by auto
  then have split: "xs = butlast xs @ [last xs]" by simp
  with assms(1) have "\<forall>y \<in> set (butlast xs). last xs < y"
    by (metis sorted_wrt_append list.set_intros(1))
  moreover from assms(2) split have "x \<in> set (butlast xs) \<or> x = last xs"
    by (metis in_set_butlast_appendI rotate1.simps(2) set_rotate1 set_ConsD)
  ultimately show ?thesis by auto
qed

lemma watermark_ok_step:
  assumes "watermark_ok s" and "train_step c L s f = Inr (s', brk)"
  shows "watermark_ok s'"
proof -
  from train_step_shape [OF assms(2)] obtain evs sv due where
    ev: "events s' = events s @ evs @ sv" "saved_losses evs = []"
    and sv: "sv = (if due \<and> lt_ext (avg_loss s') (best_loss s)
             then [BestModelSaved (global_step s + 1) (avg_loss s')] else [])"
    and best: "best_loss s' = (if due \<and> lt_ext (avg_loss s') (best_loss s) then Some (avg_loss s')
                       else best_loss s)"
    by blast
  let ?xs = "saved_losses (events s)"
  show ?thesis
  proof (cases "due \<and> lt_ext (avg_loss s') (best_loss s)")
    case True
    with assms(1) have below: "?xs \<noteq> [] \<longrightarrow> avg_loss s' < last ?xs"
      by (auto simp: watermark_ok_def)
    have "\<forall>x \<in> set ?xs. avg_loss s' < x"
      using below sorted_wrt_greater_last [of ?xs] assms(1)
      by (auto simp: watermark_ok_def) (meson less_le_trans)
    with True assms(1) ev sv best show ?thesis
      by (simp add: watermark_ok_def sorted_wrt_append)
  next
    case False
    with sv best have "sv = []" "best_loss s' = best_loss s" by simp_all
    with assms(1) ev show ?thesis by (simp add: watermark_ok_def)
  qed
qed

lemma train_reaches_watermark:
  "train_reaches c L s0 s b \<Longrightarrow> watermark_ok s0 \<Longrightarrow> watermark_ok s"
  by (induction rule: train_reaches.induct) (auto intro: watermark_ok_step)

lemma watermark_ok_init [simp]: "watermark_ok (init_state p sch gs)"
  by (simp add: watermark_ok_def init_state_def)

text \<open>
  C18. The best-model checkpoints of a run have strictly decreasing losses, and the
  watermark \<open>best_loss\<close> is always the loss of the last checkpoint written
  (\<open>float("inf")\<close> before the first): \<open>save_best_model\<close> writes only improvements.
\<close>

theorem best_loss_watermark:
  assumes "train_reaches c L (init_state p sch gs) s brk"
  shows "sorted_wrt (>) (saved_losses (events s))
     \<and> best_loss s = (if saved_losses (events s) = [] then None
                      else Some (last (saved_losses (events s))))"
  using train_reaches_watermark [OF assms watermark_ok_init] by (simp add: watermark_ok_def)

theorem best_loss_watermark_witness:
  "\<exists>s brk. train_reaches (example_config 5 1) example_learner (init_state 0 None 0) s brk
     \<and> saved_losses (events s) = [2] \<and> best_loss s = Some 2"
proof -
  obtain s where run: "train_loop (example_config 5 1) example_learner (init_state 0 None 0)
                         [example_batch, example_batch, example_batch] = Inr s"
    and ev: "saved_losses (events s) = [2]"
    by (simp add: train_eval example_eval saved_losses_def)
  from train_loop_reaches [OF run] obtain brk
    where r: "train_reaches (example_config 5 1) example_learner (init_state 0 None 0) s brk" ..
  from best_loss_watermark [OF r] ev have "best_loss s = Some 2" by simp
  with r ev show ?thesis by blast
qed

lemma sorted_const: "\<forall>x \<in> set xs. x = a \<Longrightarrow> sorted xs"
  by (induction xs) auto

lemma train_reaches_events:
  "train_reaches c L s0 s b \<Longrightarrow> events s0 = [] \<Longrightarrow>
     sorted (map event_step (events s))
     \<and> (\<forall>e \<in> set (events s). global_step s0 < event_step e \<and> event_step e \<le> global_step s)
     \<and> global_step s0 \<le> global_step s"
proof (induction rule: train_reaches.induct)
  case start
  then show ?case by simp
next
  case (step s f s' brk)
  from step.IH step.prems have IH: "sorted (map event_step (events s))"
    "\<forall>e \<in> set (events s). global_step s0 < event_step e \<and> event_step e \<le> global_step s"
    "global_step s0 \<le> global_step s"
    by simp_all
  from train_step_shape [OF step.hyps(2)] obtain evs sv where
    ev: "events s' = events s @ evs @ sv"
    and new: "\<forall>e \<in> set (evs @ sv). event_step e = global_step s + 1"
    by blast
  from train_step_counts [OF step.hyps(2)] have gs: "global_step s' = global_step s + 1" by simp
  from new have new_sorted: "sorted (map event_step (evs @ sv))"
    by (intro sorted_const) auto
  have "\<forall>x \<in> set (map event_step (events s)). \<forall>y \<in> set (map event_step (evs @ sv)). x \<le> y"
    using IH(2) new by fastforce
  with IH(1) new_sorted have "sorted (map event_step (events s) @ map event_step (evs @ sv))"
    unfolding sorted_append by blast
  then have "sorted (map event_step (events s @ evs @ sv))" by simp
  with IH ev new gs show ?case by auto
qed

text \<open>
  C19. What a run emits (dashboard statistics and figures, progress lines, checkpoints) is
  stamped in non-decreasing step order, each with a step of this run: after the starting
  step and at most the current \<open>global_step\<close>.
\<close>

theorem events_in_step_order:
  assumes "train_reaches c L (init_state p sch gs) s brk"
  shows "sorted (map event_step (events s))
     \<and> (\<forall>e \<in> set (events s). gs < event_step e \<and> event_step e \<le> global_step s)"
  using train_reaches_events [OF assms] by (simp add: init_state_def)

theorem events_in_step_order_witness:
  "\<exists>s brk. train_reaches (example_config 5 1) example_learner (init_state 0 None 0) s brk
     \<and> events s \<noteq> [] \<and> sorted (map event_step (events s))"
proof -
  obtain s where run: "train_loop (example_config 5 1) example_learner (init_state 0 None 0)
        [example_batch, example_batch, example_batch, example_batch, example_batch] = Inr s"
    and ne: "events s \<noteq> []"
    by (simp add: train_eval example_eval)
  from train_loop_reaches [OF run] obtain brk
    where r: "train_reaches (example_config 5 1) example_learner (init_state 0 None 0) s brk" ..
  from events_in_step_order [OF r] have "sorted (map event_step (events s))" by (rule conjunct1)
  with r ne show ?thesis by blast
qed

lemma checkpoint_due_not_due:
  "checkpoint_due c gs = Inr due \<Longrightarrow> gs < max_train_step c \<Longrightarrow> gs mod save_step c \<noteq> 0 \<Longrightarrow> \<not> due"
  by (auto simp: checkpoint_due_def py_mod_def split: if_splits)

lemma train_loop_last_save:
  assumes "global_step s < max_train_step c"
    and "max_train_step c - global_step s \<le> int (length fs)"
    and "best_loss s = None"
    and "\<forall>k. global_step s < k \<and> k < max_train_step c \<longrightarrow> k mod save_step c \<noteq> 0"
    and "train_loop c L s fs = Inr s'"
  shows "events s' \<noteq> [] \<and> last (events s') = BestModelSaved (max_train_step c) (avg_loss s')
     \<and> best_loss s' = Some (avg_loss s')"
  using assms
proof (induction fs arbitrary: s)
  case Nil
  then show ?case by simp
next
  case (Cons f fs)
  from Cons.prems(5) obtain s1 brk where st: "train_step c L s f = Inr (s1, brk)"
    by (auto split: sum.splits)
  from train_step_counts [OF st] have gs1: "global_step s1 = global_step s + 1"
    and brk: "brk = (max_train_step c \<le> global_step s + 1)" by simp_all
  from train_step_shape [OF st] obtain evs sv due where
    due: "checkpoint_due c (global_step s + 1) = Inr due"
    and ev: "events s1 = events s @ evs @ sv"
    and sv: "sv = (if due \<and> lt_ext (avg_loss s1) (best_loss s)
             then [BestModelSaved (global_step s + 1) (avg_loss s1)] else [])"
    and best: "best_loss s1 = (if due \<and> lt_ext (avg_loss s1) (best_loss s) then Some (avg_loss s1)
                       else best_loss s)"
    by blast
  show ?case
  proof (cases "max_train_step c \<le> global_step s + 1")
    case True
    with Cons.prems(1) have max: "max_train_step c = global_step s + 1" by simp
    from due True have "due" by (rule checkpoint_due_at_max)
    with Cons.prems(3) sv best have "sv = [BestModelSaved (global_step s + 1) (avg_loss s1)]"
      "best_loss s1 = Some (avg_loss s1)" by simp_all
    moreover from True brk st Cons.prems(5) have "s' = s1" by simp
    ultimately show ?thesis using ev max by simp
  next
    case False
    with brk st Cons.prems(5) have run: "train_loop c L s1 fs = Inr s'" by simp
    from False Cons.prems(4) have "(global_step s + 1) mod save_step c \<noteq> 0" by simp
    moreover from False have "global_step s + 1 < max_train_step c" by simp
    ultimately have "\<not> due" using checkpoint_due_not_due [OF due] by blast
    with best Cons.prems(3) have "best_loss s1 = None" by simp
    moreover from False gs1 have "global_step s1 < max_train_step c" by simp
    moreover from Cons.prems(2) gs1 have "max_train_step c - global_step s1 \<le> int (length fs)"
      by simp
    moreover from Cons.prems(4) gs1
    have "\<forall>k. global_step s1 < k \<and> k < max_train_step c \<longrightarrow> k mod save_step c \<noteq> 0" by simp
    ultimately show ?thesis using run by (intro Cons.IH) simp_all
  qed
qed

text \<open>
  C20. A run that reaches \<open>max_train_step\<close> without passing a multiple of
  \<open>save_step\<close> on the way ends with a best-model checkpoint at \<open>max_train_step\<close>,
  holding the final smoothed loss (the second disjunct of line 162).
\<close>

theorem train_loop_final_checkpoint:
  assumes "global_step s < max_train_step c"
    and "max_train_step c - global_step s \<le> int (length fs)"
    and "best_loss s = None"
    and "\<forall>k. global_step s < k \<and> k < max_train_step c \<longrightarrow> k mod save_step c \<noteq> 0"
    and "train_loop c L s fs = Inr s'"
  shows "events s' \<noteq> [] \<and> last (events s') = BestModelSaved (max_train_step c) (avg_loss s')
     \<and> best_loss s' = Some (avg_loss s')"
  using assms by (rule train_loop_last_save)

theorem train_loop_final_checkpoint_witness:
  "\<exists>s'. train_loop (example_config 5 1000) example_learner (init_state 0 None 0)
          [example_batch, example_batch, example_batch, example_batch, example_batch] = Inr s'
     \<and> last (events s') = BestModelSaved 5 (avg_loss s') \<and> global_step s' = 5"
proof -
  obtain s' where run: "train_loop (example_config 5 1000) example_learner (init_state 0 None 0)
        [example_batch, example_batch, example_batch, example_batch, example_batch] = Inr s'"
    and gs: "global_step s' = 5"
    by (simp add: train_eval example_eval)
  have "\<forall>k. global_step (init_state (0::nat) None 0) < k \<and> k < max_train_step (example_config 5 1000)
          \<longrightarrow> k mod save_step (example_config 5 1000) \<noteq> 0"
    by (auto simp: example_eval init_state_def)
  then have "last (events s') = BestModelSaved (max_train_step (example_config 5 1000)) (avg_loss s')"
    using train_loop_final_checkpoint [OF _ _ _ _ run] by (simp add: example_eval init_state_def)
  with run gs show ?thesis by (auto simp: example_eval)
qed

lemma train_loop_scheduler:
  assumes "train_loop c L s fs = Inr s'"
  shows "scheduler s' = (if lr_decay c then map_option (\<lambda>e. e + (global_step s' - global_step s))
                                               (scheduler s)
                         else scheduler s)"
  using assms
proof (induction fs arbitrary: s)
  case Nil
  then show ?case by (simp add: option.map_ident)
next
  case (Cons f fs)
  from Cons.prems obtain s1 brk where st: "train_step c L s f = Inr (s1, brk)"
    by (auto split: sum.splits)
  from train_step_counts [OF st] have gs1: "global_step s1 = global_step s + 1" by simp
  from train_step_shape [OF st] have sch1: "scheduler s1 =
      (if lr_decay c then map_option (\<lambda>e. e + 1) (scheduler s) else scheduler s)" by blast
  show ?case
  proof (cases brk)
    case True
    with Cons.prems st have "s' = s1" by simp
    with sch1 gs1 show ?thesis by simp
  next
    case False
    with Cons.prems st have "train_loop c L s1 fs = Inr s'" by simp
    then have "scheduler s' = (if lr_decay c then map_option (\<lambda>e. e + (global_step s' - global_step s1))
                                               (scheduler s1) else scheduler s1)"
      by (rule Cons.IH)
    with sch1 gs1 show ?thesis by (simp add: option.map_comp comp_def algebra_simps)
  qed
qed

text \<open>
  C21. With \<open>lr_decay\<close> the scheduler advances exactly once per processed batch, in
  step with \<open>global_step\<close>; without it the scheduler is never touched.
\<close>

theorem scheduler_follows_steps:
  assumes "train_loop c L s fs = Inr s'"
  shows "scheduler s' = (if lr_decay c then map_option (\<lambda>e. e + (global_step s' - global_step s))
                                               (scheduler s)
                         else scheduler s)"
  using assms by (rule train_loop_scheduler)

theorem scheduler_follows_steps_witness:
  "\<exists>s'. train_loop ((example_config 5 1000)\<lparr>lr_decay := True\<rparr>) example_learner
          (init_state 0 (Some (-1)) 0) [example_batch, example_batch] = Inr s'
     \<and> global_step s' = 2 \<and> scheduler s' = Some 1"
proof -
  obtain s' where run: "train_loop ((example_config 5 1000)\<lparr>lr_decay := True\<rparr>) example_learner
          (init_state 0 (Some (-1)) 0) [example_batch, example_batch] = Inr s'"
    and gs: "global_step s' = 2"
    by (simp add: train_eval example_eval)
  from scheduler_follows_steps [OF run] gs have "scheduler s' = Some 1"
    by (simp add: example_eval init_state_def)
  with run gs show ?thesis by blast
qed

text \<open>
  C22. A zero \<open>steps_plot_stats\<close> is not rejected by the configuration
  (\<open>check_values\<close> does not look at it) but makes the first iteration raise
  \<open>ZeroDivisionError\<close> at line 137, after the forward and backward pass.
\<close>

theorem zero_plot_cadence_raises:
  assumes "loop_ready (c\<lparr>steps_plot_stats := 1\<rparr>) s" and "steps_plot_stats c = 0"
    and "batch_fits c f" and "\<forall>p xs. length (forward L p xs) = length xs"
  shows "check_values c = check_values (c\<lparr>steps_plot_stats := 1\<rparr>)
     \<and> train_loop c L s (f # fs) = Inl ZeroDivisionError"
proof -
  have cv: "check_values c = check_values (c\<lparr>steps_plot_stats := 1\<rparr>)"
    by (simp add: check_values_def split: option.splits)
  from assms(1) obtain u k where u: "num_utter_per_class c = Some u"
    and k: "num_classes_in_batch c = Some k" and uk: "0 \<le> u" "0 < k"
    by (auto simp: loop_ready_def split: option.splits)
  from assms(1) have sched: "lr_decay c \<longrightarrow> scheduler s \<noteq> None"
    and nw: "num_loader_workers c \<noteq> None" by (simp_all add: loop_ready_def)
  from train_step_front [OF u k uk sched assms(3,4)] obtain xs ls sch l p' gn where
    prep: "prepare_batch c f = Inr (nat k, xs, ls)" and sch: "schedule_step c (scheduler s) = Inr sch"
    and cl: "compute_loss L (nat k) (params s) xs ls = Inr (l, p', gn)"
    by blast
  from nw obtain n where n: "num_loader_workers c = Some n" by auto
  have "train_step c L s f = Inl ZeroDivisionError"
    by (simp add: train_step_def prep sch cl n log_step_def py_mod_def assms(2))
  with cv show ?thesis by simp
qed

theorem zero_plot_cadence_raises_witness:
  "check_values ((example_config 5 1000)\<lparr>steps_plot_stats := 0\<rparr>) = Inr ()
   \<and> train_loop ((example_config 5 1000)\<lparr>steps_plot_stats := 0\<rparr>) example_learner
     (init_state 0 None 0) [example_batch] = Inl ZeroDivisionError"
proof -
  let ?c = "(example_config 5 1000)\<lparr>steps_plot_stats := 0\<rparr>"
  have lr: "loop_ready (?c\<lparr>steps_plot_stats := 1\<rparr>) (init_state (0::nat) None 0)"
    by (simp add: loop_ready_def example_eval)
  have bf: "batch_fits ?c example_batch"
    by (simp add: batch_fits_def example_eval)
  have fw: "\<forall>p xs. length (forward example_learner p xs) = length xs"
    by (simp add: example_learner_def)
  have "check_values ?c = check_values (?c\<lparr>steps_plot_stats := 1\<rparr>)
     \<and> train_loop ?c example_learner (init_state 0 None 0) [example_batch] = Inl ZeroDivisionError"
    using zero_plot_cadence_raises [OF lr _ bf fw] by simp
  moreover have "check_values (?c\<lparr>steps_plot_stats := 1\<rparr>) = Inr ()"
    by (simp add: check_values_def example_eval default_model_params_def)
  ultimately show ?thesis by simp
qed

end
