(* ===== verification/Restore.thy ===== *)
theory Restore
  imports Config
begin

text \<open>
  Restoring from a checkpoint, lines 203--223 of \<open>main()\<close> in
  \<open>src/TTS/bin/train_encoder.py\<close>. A state dictionary maps parameter names to a shape and
  a value. The strict \<open>load_state_dict\<close> of the framework and \<open>set_init_dict\<close> of
  \<open>TTS.utils.generic_utils\<close> are not in the sources and are modelled from the spec and the
  framework's documented behaviour: \<open>set_init_dict\<close> copies the entries whose name and
  shape match and keeps the others; the strict load copies exactly those entries into the
  module and then raises \<open>RuntimeError\<close> unless the two dictionaries have the same names
  and shapes, so a failed load leaves the module partly loaded. The optimizer is
  represented by its parameter groups: their learning rates and the \<open>initial_lr\<close> key a
  learning-rate scheduler adds to them.
\<close>

section \<open>Data\<close>

type_synonym shape = "nat list"

type_synonym 'v state_dict = "string \<rightharpoonup> shape \<times> 'v"

text \<open>A loaded checkpoint; a key the file lacks is \<open>None\<close>.\<close>

record 'v checkpoint =
  ck_model :: "'v state_dict option"
  ck_criterion :: "'v state_dict option"
  ck_step :: "int option"

text \<open>
  The state \<open>main()\<close> builds and the restore changes: model, criterion, and for each
  optimizer group its \<open>"lr"\<close> and its \<open>"initial_lr"\<close> (\<open>None\<close> while absent).
\<close>

record 'v model_state =
  model_sd :: "'v state_dict"
  criterion_sd :: "'v state_dict"
  group_lrs :: "real list"
  group_initial_lrs :: "real option list"

section \<open>Operations\<close>

text \<open>Two dictionaries agree on names and shapes.\<close>

definition same_layout :: "'v state_dict \<Rightarrow> 'v state_dict \<Rightarrow> bool" where
  "same_layout cur new \<longleftrightarrow> (\<forall>k. map_option fst (new k) = map_option fst (cur k))"

definition set_init_dict :: "'v state_dict \<Rightarrow> 'v state_dict \<Rightarrow> 'v state_dict" where
  "set_init_dict cur ck =
     (\<lambda>k. case (cur k, ck k) of
            (Some (sh, _), Some (sh', v)) \<Rightarrow> if sh' = sh then Some (sh', v) else cur k
          | _ \<Rightarrow> cur k)"

text \<open>
  \<open>module.load_state_dict(new)\<close>: the module's dictionary after the call, and whether the
  call returned or raised.
\<close>

definition load_state_dict :: "'v state_dict \<Rightarrow> 'v state_dict \<Rightarrow> 'v state_dict \<times> unit result" where
  "load_state_dict cur new =
     (set_init_dict cur new, if same_layout cur new then Inr () else Inl RuntimeError)"

text \<open>
  \<open>checkpoint["model"]\<close> raises \<open>KeyError\<close> when the file has no model.
\<close>

definition ck_get :: "string \<Rightarrow> 'a option \<Rightarrow> 'a result" where
  "ck_get key v = (case v of None \<Rightarrow> Inl (KeyError key) | Some x \<Rightarrow> Inr x)"

text \<open>
  Lines 206--209, the body of the \<open>try\<close>: the state it leaves behind, also when it raises,
  and its outcome.
\<close>

definition load_model_and_criterion ::
    "'v model_state \<Rightarrow> 'v checkpoint \<Rightarrow> 'v model_state \<times> unit result" where
  "load_model_and_criterion ms ck =
     (case ck_get ''model'' (ck_model ck) of
        Inl e \<Rightarrow> (ms, Inl e)
      | Inr m \<Rightarrow>
          (let (m', r) = load_state_dict (model_sd ms) m; ms1 = ms\<lparr>model_sd := m'\<rparr> in
           case r of
             Inl e \<Rightarrow> (ms1, Inl e)
           | Inr _ \<Rightarrow>
               (case ck_criterion ck of
                  None \<Rightarrow> (ms1, Inr ())
                | Some cr \<Rightarrow>
                    (let (cr', r') = load_state_dict (criterion_sd ms1) cr
                     in (ms1\<lparr>criterion_sd := cr'\<rparr>, r')))))"

text \<open>Lines 212--216, the handler of \<open>KeyError\<close> and \<open>RuntimeError\<close>.\<close>

definition partial_init :: "'v model_state \<Rightarrow> 'v checkpoint \<Rightarrow> 'v state_dict result" where
  "partial_init ms ck =
     bind_result (ck_get ''model'' (ck_model ck)) (\<lambda>m.
       (let (m', r) = load_state_dict (model_sd ms) (set_init_dict (model_sd ms) m)
        in bind_result r (\<lambda>_. Inr m')))"

text \<open>
  Lines 204--221: the \<open>try\<close> with its handler, which starts from the state the failed
  \<open>try\<close> left, the learning rate of every group reset to \<open>c.lr\<close>, and the checkpoint's
  step returned as the new \<open>restore_step\<close>.
\<close>

definition restore ::
    "encoder_config \<Rightarrow> 'v model_state \<Rightarrow> 'v checkpoint \<Rightarrow> ('v model_state \<times> int) result" where
  "restore c ms ck =
     (let (ms1, r) = load_model_and_criterion ms ck in
      bind_result
        (case r of
           Inr _ \<Rightarrow> Inr ms1
         | Inl (KeyError _) \<Rightarrow> bind_result (partial_init ms1 ck) (\<lambda>m'. Inr (ms1\<lparr>model_sd := m'\<rparr>))
         | Inl RuntimeError \<Rightarrow> bind_result (partial_init ms1 ck) (\<lambda>m'. Inr (ms1\<lparr>model_sd := m'\<rparr>))
         | Inl e \<Rightarrow> Inl e)
        (\<lambda>ms'. bind_result (ck_get ''step'' (ck_step ck)) (\<lambda>n.
           Inr (ms'\<lparr>group_lrs := map (\<lambda>_. lr c) (group_lrs ms')\<rparr>, n))))"

section \<open>Facts about the operations\<close>

lemma same_layout_set_init_dict: "same_layout cur (set_init_dict cur ck)"
  by (auto simp: same_layout_def set_init_dict_def split: option.splits prod.splits)

lemma set_init_dict_same_layout: "same_layout cur new \<Longrightarrow> set_init_dict cur new = new"
proof (rule ext)
  fix k assume "same_layout cur new"
  then have "map_option fst (new k) = map_option fst (cur k)" by (simp add: same_layout_def)
  then show "set_init_dict cur new k = new k"
    by (cases "cur k"; cases "new k") (auto simp: set_init_dict_def)
qed

lemma set_init_dict_apply:
  "set_init_dict cur ck k =
     (if k \<in> dom cur \<and> map_option fst (ck k) = map_option fst (cur k) then ck k else cur k)"
  by (cases "cur k"; cases "ck k") (auto simp: set_init_dict_def)

text \<open>Copying the matching entries a second time changes nothing.\<close>

lemma set_init_dict_idem: "set_init_dict (set_init_dict cur m) m = set_init_dict cur m"
proof (rule ext)
  fix k
  show "set_init_dict (set_init_dict cur m) m k = set_init_dict cur m k"
    by (cases "cur k"; cases "m k") (auto simp: set_init_dict_def)
qed

lemma set_init_dict_self [simp]: "set_init_dict cur (set_init_dict cur m) = set_init_dict cur m"
  by (rule set_init_dict_same_layout [OF same_layout_set_init_dict])

lemma partial_init_Some:
  "ck_model ck = Some m \<Longrightarrow> partial_init ms ck = Inr (set_init_dict (model_sd ms) m)"
  by (simp add: partial_init_def ck_get_def load_state_dict_def same_layout_set_init_dict)

text \<open>
  What the \<open>try\<close> body leaves behind: the model partly loaded whenever the checkpoint has
  one, the criterion loaded (partly, if its layout differs) only after the model's strict
  load succeeded, and the optimizer untouched.
\<close>

lemma load_model_and_criterion_state:
  assumes "load_model_and_criterion ms ck = (ms1, r)"
  shows "model_sd ms1 = (case ck_model ck of None \<Rightarrow> model_sd ms | Some m \<Rightarrow> set_init_dict (model_sd ms) m)
     \<and> criterion_sd ms1 = (case (ck_model ck, ck_criterion ck) of
            (Some m, Some cr) \<Rightarrow> if same_layout (model_sd ms) m then set_init_dict (criterion_sd ms) cr
                                else criterion_sd ms
          | _ \<Rightarrow> criterion_sd ms)
     \<and> group_lrs ms1 = group_lrs ms \<and> group_initial_lrs ms1 = group_initial_lrs ms"
  using assms
  by (auto simp: load_model_and_criterion_def ck_get_def load_state_dict_def Let_def
        split: option.splits if_splits)

lemma load_model_and_criterion_error:
  "load_model_and_criterion ms ck = (ms1, Inl e) \<Longrightarrow> e = KeyError ''model'' \<or> e = RuntimeError"
  by (auto simp: load_model_and_criterion_def ck_get_def load_state_dict_def Let_def
        split: option.splits if_splits)

text \<open>
  Every successful restore leaves the model at \<open>set_init_dict\<close> of the fresh model and
  the checkpoint's model, whichever path it took, keeps the criterion the \<open>try\<close> body
  left, sets every group's rate to \<open>c.lr\<close> and returns the stored step.
\<close>

lemma restore_Inr:
  assumes "restore c ms ck = Inr (ms', n)"
  shows "\<exists>m. ck_model ck = Some m \<and> model_sd ms' = set_init_dict (model_sd ms) m
           \<and> criterion_sd ms' = criterion_sd (fst (load_model_and_criterion ms ck))
           \<and> ck_step ck = Some n \<and> group_lrs ms' = map (\<lambda>_. lr c) (group_lrs ms)
           \<and> group_initial_lrs ms' = group_initial_lrs ms"
proof -
  obtain ms1 r where lm: "load_model_and_criterion ms ck = (ms1, r)" by fastforce
  note st = load_model_and_criterion_state [OF lm]
  from assms lm obtain ms2 where first:
    "(case r of
        Inr _ \<Rightarrow> Inr ms1
      | Inl (KeyError _) \<Rightarrow> bind_result (partial_init ms1 ck) (\<lambda>m'. Inr (ms1\<lparr>model_sd := m'\<rparr>))
      | Inl RuntimeError \<Rightarrow> bind_result (partial_init ms1 ck) (\<lambda>m'. Inr (ms1\<lparr>model_sd := m'\<rparr>))
      | Inl e \<Rightarrow> Inl e) = Inr ms2"
    and rest: "ck_step ck = Some n" "ms' = ms2\<lparr>group_lrs := map (\<lambda>_. lr c) (group_lrs ms2)\<rparr>"
    by (auto simp: restore_def bind_result_eq_Inr ck_get_def split: option.splits)
  have "\<exists>m. ck_model ck = Some m \<and> model_sd ms2 = set_init_dict (model_sd ms) m
          \<and> criterion_sd ms2 = criterion_sd ms1 \<and> group_lrs ms2 = group_lrs ms
          \<and> group_initial_lrs ms2 = group_initial_lrs ms"
  proof (cases r)
    case (Inl e)
    with lm load_model_and_criterion_error have "e = KeyError ''model'' \<or> e = RuntimeError" by blast
    with first Inl st show ?thesis
      by (auto simp: partial_init_def ck_get_def load_state_dict_def same_layout_set_init_dict
            set_init_dict_idem split: option.splits)
  next
    case (Inr u)
    with lm have "ck_model ck \<noteq> None"
      by (auto simp: load_model_and_criterion_def ck_get_def split: option.splits)
    with first Inr st show ?thesis by auto
  qed
  with rest lm show ?thesis by auto
qed

lemma restore_total:
  assumes "ck_model ck = Some m" and "ck_step ck = Some n"
  shows "\<exists>ms'. restore c ms ck = Inr (ms', n)"
proof -
  obtain ms1 r where lm: "load_model_and_criterion ms ck = (ms1, r)" by fastforce
  show ?thesis
  proof (cases r)
    case (Inl e)
    with lm load_model_and_criterion_error have "e = KeyError ''model'' \<or> e = RuntimeError" by blast
    with Inl lm assms show ?thesis
      by (auto simp: restore_def partial_init_Some ck_get_def)
  next
    case (Inr u)
    with lm assms show ?thesis by (simp add: restore_def ck_get_def)
  qed
qed

section \<open>Properties of the restore\<close>

text \<open>
  C23. Restoring from a checkpoint that has a model and a step never raises, however its
  names and shapes differ from the current model's (or the criterion's): a structural
  mismatch is recovered by the partial initialization.
\<close>

theorem restore_tolerates_mismatch:
  assumes "ck_model ck = Some m" and "ck_step ck = Some n"
  shows "\<exists>ms'. restore c ms ck = Inr (ms', n)"
  using assms by (rule restore_total)

theorem restore_tolerates_mismatch_witness:
  "\<exists>ms'. restore (default_encoder_config \<lparr>num_mels = 80\<rparr>)
     \<lparr>model_sd = [''w'' \<mapsto> ([2], 0::nat)], criterion_sd = Map.empty, group_lrs = [0.5],
      group_initial_lrs = [None]\<rparr>
     \<lparr>ck_model = Some [''w'' \<mapsto> ([3], 1), ''extra'' \<mapsto> ([1], 5)], ck_criterion = None,
      ck_step = Some 7\<rparr> = Inr (ms', 7)"
  by (rule restore_tolerates_mismatch) simp_all

text \<open>
  C24. After a restore, a parameter holds the checkpoint's value exactly when the model has
  a parameter of that name and the checkpoint's has the same shape; every other parameter
  keeps its freshly initialized value.
\<close>

theorem restore_copies_matching:
  assumes "restore c ms ck = Inr (ms', n)"
  shows "\<exists>m. ck_model ck = Some m \<and>
     (\<forall>k. model_sd ms' k =
            (if k \<in> dom (model_sd ms) \<and> map_option fst (m k) = map_option fst (model_sd ms k)
             then m k else model_sd ms k))"
  using restore_Inr [OF assms] by (auto simp: set_init_dict_apply)

theorem restore_copies_matching_witness:
  "\<exists>ms'. restore (default_encoder_config \<lparr>num_mels = 80\<rparr>)
     \<lparr>model_sd = [''w'' \<mapsto> ([2], 0::nat), ''b'' \<mapsto> ([1], 0)], criterion_sd = Map.empty,
      group_lrs = [0.5], group_initial_lrs = [None]\<rparr>
     \<lparr>ck_model = Some [''w'' \<mapsto> ([3], 1), ''b'' \<mapsto> ([1], 4)], ck_criterion = None,
      ck_step = Some 7\<rparr> = Inr (ms', 7)
   \<and> model_sd ms' = [''w'' \<mapsto> ([2], 0), ''b'' \<mapsto> ([1], 4)]"
proof -
  let ?c = "default_encoder_config \<lparr>num_mels = 80\<rparr>"
  let ?ms = "\<lparr>model_sd = [''w'' \<mapsto> ([2], 0::nat), ''b'' \<mapsto> ([1], 0)], criterion_sd = Map.empty,
      group_lrs = [0.5], group_initial_lrs = [None]\<rparr>"
  let ?ck = "\<lparr>ck_model = Some [''w'' \<mapsto> ([3], 1::nat), ''b'' \<mapsto> ([1], 4)], ck_criterion = None,
      ck_step = Some 7\<rparr>"
  obtain ms' where r: "restore ?c ?ms ?ck = Inr (ms', 7)"
    using restore_total [of ?ck _ 7 ?c ?ms] by auto
  from restore_copies_matching [OF r] have
    "model_sd ms' = [''w'' \<mapsto> ([2], 0), ''b'' \<mapsto> ([1], 4)]"
    by (auto intro!: ext)
  with r show ?thesis by blast
qed

text \<open>
  C25. The criterion after a restore: it is loaded only when the model's strict load
  succeeded (an exception from the model's load skips the criterion's), and then partly
  when its own names or shapes differ, since the failed strict load keeps what it copied
  and the handler re-initializes only the model.
\<close>

theorem restore_criterion_state:
  assumes "restore c ms ck = Inr (ms', n)"
  shows "criterion_sd ms' = (case (ck_model ck, ck_criterion ck) of
            (Some m, Some cr) \<Rightarrow> if same_layout (model_sd ms) m then set_init_dict (criterion_sd ms) cr
                                else criterion_sd ms
          | _ \<Rightarrow> criterion_sd ms)"
proof -
  obtain ms1 r where lm: "load_model_and_criterion ms ck = (ms1, r)" by fastforce
  with restore_Inr [OF assms] have "criterion_sd ms' = criterion_sd ms1" by auto
  with load_model_and_criterion_state [OF lm] show ?thesis by simp
qed

theorem restore_criterion_state_witness:
  "\<exists>ms'. restore (default_encoder_config \<lparr>num_mels = 80\<rparr>)
     \<lparr>model_sd = [''w'' \<mapsto> ([2], 0::nat)], criterion_sd = [''a'' \<mapsto> ([1], 0)], group_lrs = [0.5],
      group_initial_lrs = [None]\<rparr>
     \<lparr>ck_model = Some [''w'' \<mapsto> ([2], 1)], ck_criterion = Some [''a'' \<mapsto> ([1], 3), ''x'' \<mapsto> ([2], 1)],
      ck_step = Some 7\<rparr> = Inr (ms', 7)
   \<and> criterion_sd ms' = [''a'' \<mapsto> ([1], 3)]"
proof -
  let ?c = "default_encoder_config \<lparr>num_mels = 80\<rparr>"
  let ?ms = "\<lparr>model_sd = [''w'' \<mapsto> ([2], 0::nat)], criterion_sd = [''a'' \<mapsto> ([1], 0)],
      group_lrs = [0.5], group_initial_lrs = [None]\<rparr>"
  let ?ck = "\<lparr>ck_model = Some [''w'' \<mapsto> ([2], 1::nat)],
      ck_criterion = Some [''a'' \<mapsto> ([1], 3), ''x'' \<mapsto> ([2], 1)], ck_step = Some 7\<rparr>"
  obtain ms' where r: "restore ?c ?ms ?ck = Inr (ms', 7)"
    using restore_total [of ?ck _ 7 ?c ?ms] by auto
  have "same_layout [''w'' \<mapsto> ([2], 0::nat)] [''w'' \<mapsto> ([2], 1)]"
    by (simp add: same_layout_def)
  with restore_criterion_state [OF r] have "criterion_sd ms' = [''a'' \<mapsto> ([1], 3)]"
    by (auto simp: set_init_dict_def)
  with r show ?thesis by blast
qed

text \<open>
  C26. A successful restore resets the learning rate of every optimizer group to the
  configured \<open>lr\<close>, whatever the checkpoint stored, and makes the checkpoint's step the
  new \<open>restore_step\<close>.
\<close>

theorem restore_resets_lr:
  assumes "restore c ms ck = Inr (ms', n)"
  shows "group_lrs ms' = replicate (length (group_lrs ms)) (lr c) \<and> ck_step ck = Some n"
  using restore_Inr [OF assms] by (auto simp: map_replicate_const)

theorem restore_resets_lr_witness:
  "\<exists>ms'. restore (default_encoder_config \<lparr>num_mels = 80\<rparr>)
     \<lparr>model_sd = [''w'' \<mapsto> ([2], 0::nat)], criterion_sd = Map.empty, group_lrs = [0.5, 0.25],
      group_initial_lrs = [None, None]\<rparr>
     \<lparr>ck_model = Some [''w'' \<mapsto> ([2], 1)], ck_criterion = None, ck_step = Some 42\<rparr> = Inr (ms', 42)
   \<and> group_lrs ms' = [0.0001, 0.0001]"
proof -
  let ?c = "default_encoder_config \<lparr>num_mels = 80\<rparr>"
  let ?ms = "\<lparr>model_sd = [''w'' \<mapsto> ([2], 0::nat)], criterion_sd = Map.empty, group_lrs = [0.5, 0.25],
      group_initial_lrs = [None, None]\<rparr>"
  let ?ck = "\<lparr>ck_model = Some [''w'' \<mapsto> ([2], 1::nat)], ck_criterion = None, ck_step = Some 42\<rparr>"
  obtain ms' where r: "restore ?c ?ms ?ck = Inr (ms', 42)"
    using restore_total [of ?ck _ 42 ?c ?ms] by auto
  from restore_resets_lr [OF r] have "group_lrs ms' = [0.0001, 0.0001]"
    by (simp add: default_encoder_config_def numeral_2_eq_2)
  with r show ?thesis by blast
qed

text \<open>
  C27. A checkpoint without a model is fatal, unlike a mismatched one: the handler of the
  \<open>KeyError\<close> reads \<open>checkpoint["model"]\<close> again and raises the same error out of
  \<open>main()\<close>.
\<close>

theorem restore_missing_model:
  "ck_model ck = None \<Longrightarrow> restore c ms ck = Inl (KeyError ''model'')"
  by (simp add: restore_def load_model_and_criterion_def partial_init_def ck_get_def)

theorem restore_missing_model_witness:
  "restore (default_encoder_config \<lparr>num_mels = 80\<rparr>)
     \<lparr>model_sd = [''w'' \<mapsto> ([2], 0::nat)], criterion_sd = Map.empty, group_lrs = [0.5],
      group_initial_lrs = [None]\<rparr>
     \<lparr>ck_model = None, ck_criterion = None, ck_step = Some 3\<rparr> = Inl (KeyError ''model'')"
  by (rule restore_missing_model) simp

end
