(* ===== verification/Entry.thy ===== *)
theory Entry
  imports TrainLoop Restore
begin

text \<open>
  The entry point of \<open>src/TTS/bin/train_encoder.py\<close>: \<open>setup_loader()\<close> (lines
  35--66), \<open>main()\<close> (lines 174--238) and the \<open>__main__\<close> block (lines 241--255).
  \<open>main()\<close> builds the optimizer, the loader and the criterion, restores from a
  checkpoint when one is given, creates the scheduler and runs \<open>train()\<close>; the block
  around it turns an interruption into exit code 0 and any other exception into exit code
  1, removing the experiment folder in both cases. The dataset, model and loss classes are
  external: the dataset is represented by what \<open>main()\<close> reads from it, the criterion
  by its kind, and the learner for a criterion is a parameter of \<open>main()\<close>.
\<close>

section \<open>Data\<close>

text \<open>What \<open>setup_loader()\<close> reads from the \<open>EncoderDataset\<close>.\<close>

record dataset_info =
  ds_num_classes :: nat
  ds_class_map :: "nat \<rightharpoonup> string"

text \<open>The arguments of \<open>PerfectBatchSampler\<close> and \<open>DataLoader\<close> (lines 50--64).\<close>

record loader_spec =
  ld_batch_size :: int
  ld_classes_in_batch :: int
  ld_num_workers :: int
  ld_shuffle :: bool
  ld_drop_last :: bool

text \<open>The three criteria of lines 190--195 with their constructor arguments.\<close>

datatype criterion_kind =
    GE2ELoss string
  | AngleProtoLoss
  | SoftmaxAngleProtoLoss pval nat

section \<open>Operations\<close>

text \<open>
  Lines 35--66. With \<open>is_val\<close> the function assigns no \<open>dataset\<close>, so the
  \<open>return\<close> raises \<open>UnboundLocalError\<close>; otherwise the sampler draws
  \<open>num_classes_in_batch * num_utter_per_class\<close> utterances per batch, shuffled, dropping
  the last incomplete batch, and the framework's \<open>DataLoader\<close> rejects a negative
  \<open>num_workers\<close> with \<open>ValueError\<close>.
\<close>

definition setup_loader ::
    "encoder_config \<Rightarrow> dataset_info \<Rightarrow> bool \<Rightarrow> (loader_spec \<times> nat \<times> (nat \<rightharpoonup> string)) result" where
  "setup_loader c ds is_val =
     (if is_val then Inl (UnboundLocalError ''dataset'')
      else
        bind_result (required ''num_classes_in_batch'' (num_classes_in_batch c)) (\<lambda>k.
        bind_result (required ''num_utter_per_class'' (num_utter_per_class c)) (\<lambda>u.
        bind_result (required ''num_loader_workers'' (num_loader_workers c)) (\<lambda>w.
          if w < 0 then Inl ValueError else
          Inr (\<lparr>ld_batch_size = k * u, ld_classes_in_batch = k, ld_num_workers = w,
                ld_shuffle = True, ld_drop_last = True\<rparr>,
               ds_num_classes ds, ds_class_map ds)))))"

text \<open>
  Lines 190--201: the criterion for \<open>c.loss\<close>; with the \<open>softmaxproto\<close> loss and the
  emotion encoder the class map is saved with the configuration (the flag returned).
\<close>

definition select_criterion :: "encoder_config \<Rightarrow> nat \<Rightarrow> (criterion_kind \<times> bool) result" where
  "select_criterion c n =
     (if loss c = ''ge2e'' then Inr (GE2ELoss ''softmax'', False)
      else if loss c = ''angleproto'' then Inr (AngleProtoLoss, False)
      else if loss c = ''softmaxproto'' then
        (case model_params c ''proj_dim'' of
           None \<Rightarrow> Inl (KeyError ''proj_dim'')
         | Some d \<Rightarrow> Inr (SoftmaxAngleProtoLoss d n, model c = Some ''emotion_encoder''))
      else Inl (UnsupportedLoss (''The '' @ loss c @ ''  not is a loss supported'')))"

text \<open>
  Lines 225--228: \<open>NoamLR(optimizer, last_epoch=restore_step - 1)\<close>. Its constructor is
  the framework's \<open>_LRScheduler.__init__\<close> (outside the sources): with
  \<open>last_epoch = -1\<close> it gives every group an \<open>initial_lr\<close> (keeping one already set);
  otherwise every group must already carry one, else it raises
  \<open>KeyError('initial_lr')\<close>; it then takes one \<open>step()\<close>, so the counter starts at
  \<open>last_epoch + 1\<close>. The learning rates that step writes are not modelled (no property
  reads them).
\<close>

definition init_scheduler ::
    "encoder_config \<Rightarrow> 'v model_state \<Rightarrow> int \<Rightarrow> ('v model_state \<times> int option) result" where
  "init_scheduler c ms rs =
     (if lr_decay c then
        (let last_epoch = rs - 1 in
         if last_epoch = -1 then
           Inr (ms\<lparr>group_initial_lrs :=
                   map (\<lambda>(l, i). case i of None \<Rightarrow> Some l | Some x \<Rightarrow> Some x)
                     (zip (group_lrs ms) (group_initial_lrs ms))\<rparr>,
                Some (last_epoch + 1))
         else if list_all (\<lambda>i. i \<noteq> None) (group_initial_lrs ms) then Inr (ms, Some (last_epoch + 1))
         else Inl (KeyError ''initial_lr''))
      else Inr (ms, None))"

text \<open>
  Lines 174--238. \<open>ms0\<close> is the freshly built model and criterion; the optimizer of
  line 182 is new, with one group at \<open>c.lr\<close> and no \<open>initial_lr\<close>; \<open>ck\<close> is the checkpoint at
  \<open>args.restore_path\<close>, if any; \<open>batches\<close> is what the loader yields. The result is
  the state \<open>train()\<close> ends in.
\<close>

definition main ::
    "encoder_config \<Rightarrow> (criterion_kind \<Rightarrow> ('v model_state, 'x, 'l, 'e) learner) \<Rightarrow> dataset_info
     \<Rightarrow> 'v model_state \<Rightarrow> 'v checkpoint option \<Rightarrow> ('x, 'l) fetched list
     \<Rightarrow> 'v model_state train_state result" where
  "main c mk ds ms0 ck batches =
     (let ms1 = ms0\<lparr>group_lrs := [lr c], group_initial_lrs := [None]\<rparr> in
      bind_result (setup_loader c ds False) (\<lambda>(ld, ncls, cmap).
      bind_result (select_criterion c ncls) (\<lambda>(crit, saves_map).
      bind_result (case ck of None \<Rightarrow> Inr (ms1, 0) | Some k \<Rightarrow> restore c ms1 k) (\<lambda>(ms, rs).
      bind_result (init_scheduler c ms rs) (\<lambda>(ms', sch).
        train_loop c (mk crit) (init_state ms' sch rs) batches)))))"

text \<open>
  Lines 241--255: the folder is removed on any exception; a \<open>KeyboardInterrupt\<close> exits
  with 0, any other exception with 1, and a normal return falls off the end (exit 0).
  The result is whether the folder was removed and the exit code.
\<close>

definition run_program :: "'a result \<Rightarrow> bool \<times> int" where
  "run_program r =
     (case r of
        Inr _ \<Rightarrow> (False, 0)
      | Inl KeyboardInterrupt \<Rightarrow> (True, 0)
      | Inl _ \<Rightarrow> (True, 1))"

section \<open>A concrete instance\<close>

text \<open>
  A dataset of two classes, a one-parameter model with one optimizer group, and for every
  criterion the learner of \<open>TrainLoop.example_learner\<close> lifted to the model state:
  each gradient step overwrites the parameter \<open>w\<close> with the batch size.
\<close>

definition example_ds :: dataset_info where
  "example_ds = \<lparr>ds_num_classes = 2, ds_class_map = [0 \<mapsto> ''a'', 1 \<mapsto> ''b'']\<rparr>"

definition example_ms :: "nat model_state" where
  "example_ms = \<lparr>model_sd = [''w'' \<mapsto> ([1], 0)], criterion_sd = Map.empty, group_lrs = [1],
     group_initial_lrs = [None]\<rparr>"

definition example_mk :: "criterion_kind \<Rightarrow> (nat model_state, nat, nat, nat) learner" where
  "example_mk crit =
     \<lparr>forward = (\<lambda>p xs. xs), criterion = (\<lambda>g ls. real (length g)),
      backward_step = (\<lambda>p xs ls. (p\<lparr>model_sd := (model_sd p)(''w'' \<mapsto> ([1], length xs))\<rparr>, 1))\<rparr>"

section \<open>Facts about main\<close>

abbreviation fresh_optimizer :: "encoder_config \<Rightarrow> 'v model_state \<Rightarrow> 'v model_state" where
  "fresh_optimizer c ms0 \<equiv> ms0\<lparr>group_lrs := [lr c], group_initial_lrs := [None]\<rparr>"

lemma main_Inr:
  assumes "main c mk ds ms0 ck bs = Inr s"
  shows "\<exists>ld ncls cmap crit sv ms rs ms' sch.
     setup_loader c ds False = Inr (ld, ncls, cmap) \<and> select_criterion c ncls = Inr (crit, sv)
     \<and> (case ck of None \<Rightarrow> (ms, rs) = (fresh_optimizer c ms0, 0)
         | Some k \<Rightarrow> restore c (fresh_optimizer c ms0) k = Inr (ms, rs))
     \<and> init_scheduler c ms rs = Inr (ms', sch)
     \<and> train_loop c (mk crit) (init_state ms' sch rs) bs = Inr s"
  using assms
  by (auto simp: main_def Let_def bind_result_eq_Inr split: option.splits prod.splits)

lemma setup_loader_train:
  assumes "num_classes_in_batch c = Some k" "num_utter_per_class c = Some u"
    "num_loader_workers c = Some w" "0 \<le> w"
  shows "setup_loader c ds False =
    Inr (\<lparr>ld_batch_size = k * u, ld_classes_in_batch = k, ld_num_workers = w,
          ld_shuffle = True, ld_drop_last = True\<rparr>, ds_num_classes ds, ds_class_map ds)"
  using assms by (simp add: setup_loader_def)

text \<open>The scheduler \<open>main()\<close> hands to \<open>train()\<close> starts at \<open>restore_step\<close>.\<close>

lemma init_scheduler_Inr:
  "init_scheduler c ms rs = Inr (ms', sch) \<Longrightarrow> sch = (if lr_decay c then Some rs else None)"
  by (auto simp: init_scheduler_def Let_def split: if_splits)

lemma init_scheduler_fresh:
  "init_scheduler c ms 0 = Inr (if lr_decay c then ms\<lparr>group_initial_lrs :=
       map (\<lambda>(l, i). case i of None \<Rightarrow> Some l | Some x \<Rightarrow> Some x)
         (zip (group_lrs ms) (group_initial_lrs ms))\<rparr> else ms,
     if lr_decay c then Some 0 else None)"
  by (simp add: init_scheduler_def)

lemma init_scheduler_resume:
  "lr_decay c \<Longrightarrow> rs \<noteq> 0 \<Longrightarrow> None \<in> set (group_initial_lrs ms)
     \<Longrightarrow> init_scheduler c ms rs = Inl (KeyError ''initial_lr'')"
  by (auto simp: init_scheduler_def list_all_iff)

text \<open>
  The criterion selection succeeds for the three supported losses (with a
  \<open>proj_dim\<close> for \<open>softmaxproto\<close>).
\<close>

lemma select_criterion_ok:
  "loss c \<in> {''ge2e'', ''angleproto'', ''softmaxproto''} \<Longrightarrow> model_params c ''proj_dim'' \<noteq> None
     \<Longrightarrow> \<exists>crit sv. select_criterion c n = Inr (crit, sv)"
  by (auto simp: select_criterion_def)

section \<open>Properties of the entry point\<close>

text \<open>
  C28. An unknown \<open>loss\<close> makes \<open>main()\<close> raise with the message of line 201 once the
  loader is built, before any checkpoint is read or any batch trained on.
\<close>

theorem main_rejects_unknown_loss:
  assumes "num_classes_in_batch c = Some k" "num_utter_per_class c = Some u"
    "num_loader_workers c = Some w" "0 \<le> w"
    and "loss c \<notin> {''ge2e'', ''angleproto'', ''softmaxproto''}"
  shows "main c mk ds ms0 ck bs = Inl (UnsupportedLoss (''The '' @ loss c @ ''  not is a loss supported''))"
  using assms by (simp add: main_def setup_loader_train select_criterion_def)

theorem main_rejects_unknown_loss_witness:
  "main ((example_config 5 1000)\<lparr>loss := ''triplet''\<rparr>) example_mk example_ds example_ms None
     [example_batch] = Inl (UnsupportedLoss ''The triplet  not is a loss supported'')"
proof -
  have "main ((example_config 5 1000)\<lparr>loss := ''triplet''\<rparr>) example_mk example_ds example_ms None
     [example_batch] = Inl (UnsupportedLoss (''The '' @ loss ((example_config 5 1000)\<lparr>loss := ''triplet''\<rparr>)
        @ ''  not is a loss supported''))"
    by (rule main_rejects_unknown_loss [where w = 0]) (simp_all add: example_config_def default_encoder_config_def)
  then show ?thesis by simp
qed

text \<open>
  C29. The program removes the experiment folder exactly when \<open>main()\<close> raised, and
  exits with a non-zero code exactly when it raised something other than a keyboard
  interruption: an interrupted run and a completed one both exit with 0.
\<close>

theorem exit_code_cases:
  "(fst (run_program r) \<longleftrightarrow> isl r)
   \<and> (snd (run_program r) \<noteq> 0 \<longleftrightarrow> (\<exists>e. r = Inl e \<and> e \<noteq> KeyboardInterrupt))"
  by (cases r) (auto simp: run_program_def split: py_error.splits)

end
