(* ===== verification/Spec2Isabelle.thy ===== *)
theory Spec2Isabelle
  imports Entry
begin

text \<open>
  \<^bold>\<open>A verification development of the speaker/emotion encoder trainer of ValuTTS.\<close>

  The program is \<open>src/TTS/bin/train_encoder.py\<close> with its configuration schema
  \<open>src/TTS/encoder/configs/base_encoder_config.py\<close>. The \<open>__main__\<close> block calls
  \<open>main()\<close>, which builds the loader (\<open>setup_loader()\<close>), picks the loss, optionally
  restores a checkpoint, creates the NoamLR scheduler and runs \<open>train()\<close>: one pass over
  the loader, one optimisation step per batch, with periodic statistics, figures, progress
  lines and best-model checkpoints, until \<open>max_train_step\<close> or the end of the loader.

  \<^bold>\<open>Theories and what they model.\<close>
  \<^item> \<open>Prelude\<close>: Python's exceptions as the datatype \<open>py_error\<close> and fallible code as
    \<open>'a result = py_error + 'a\<close> with \<open>bind_result\<close>; Python's \<open>%\<close> (\<open>py_mod\<close>)
    and \<open>range(a, b, s)\<close> (\<open>py_range_from\<close>); the float \<open>inf\<close> as \<open>ext_real\<close>; and
    the row-major grid \<open>rows\<close> with its indexing, transposition and multiset lemmas,
    shared by the regrouping proofs.
  \<^item> \<open>Regroup\<close>: lines 84--85 and 86--100 of \<open>train()\<close> (\<open>view\<close> + \<open>transpose\<close> +
    \<open>reshape\<close> as \<open>regroup\<close>; the disabled index check as \<open>regroup_ref\<close>) and the
    grouping the losses apply (\<open>group_by_class\<close>, line 119). The order in which
    \<open>PerfectBatchSampler\<close> emits utterances is outside \<open>src/\<close> and modelled from the
    spec (\<open>sampler_order\<close>).
  \<^item> \<open>Config\<close>: \<open>BaseEncoderConfig\<close> as the record \<open>encoder_config\<close> with its
    defaults; \<open>MISSING\<close> fields as \<open>int option\<close>, an error where the code reads them
    (\<open>required\<close>); \<open>check_values()\<close>.
  \<^item> \<open>Metrics\<close>: the smoothed loss and loader time of lines 127--134.
  \<^item> \<open>TrainLoop\<close>: \<open>train()\<close> (lines 69--171). The state record \<open>train_state\<close> holds
    the locals that outlive an iteration and the model/optimizer as an abstract \<open>'p\<close>;
    one definition per block of the loop body (\<open>prepare_batch\<close>, \<open>schedule_step\<close>,
    \<open>compute_loss\<close>, \<open>log_step\<close>, \<open>checkpoint_due\<close>, \<open>update_averages\<close>,
    \<open>finish_step\<close>) composed into \<open>train_step\<close>; the loop over the loader is
    \<open>train_loop\<close>, structural recursion over the list of batches the loader yields, with
    the \<open>break\<close> of line 170. The network, loss and optimiser are the \<open>learner\<close>
    interface (forward, criterion, backward step), so every theorem holds for every model
    and loss. What the dashboard and log receive is an event list in the state. The
    inductive \<open>train_reaches\<close> is the loop's step relation, used for invariants by rule
    induction.
  \<^item> \<open>Restore\<close>: the restore branch of \<open>main()\<close> (lines 203--223): strict loading of
    model and criterion, the \<open>except (KeyError, RuntimeError)\<close> partial initialisation
    through \<open>set_init_dict\<close> (spec-modelled: it lives outside \<open>src/\<close>), the learning
    rate reset and the restored step. State dicts are maps from names to shape and value;
    the framework's strict \<open>load_state_dict\<close> is a state transformer that copies the
    matching entries and then raises on any difference, so a failed load leaves the module
    partly loaded, as in the framework. The optimizer is its groups' \<open>lr\<close> and
    \<open>initial_lr\<close>.
  \<^item> \<open>Entry\<close>: \<open>setup_loader()\<close> (with the \<open>DataLoader\<close>'s rejection of a negative
    worker count), the criterion selection, the scheduler creation (\<open>init_scheduler\<close>:
    the framework's scheduler constructor, which with \<open>last_epoch \<noteq> -1\<close> requires an
    \<open>initial_lr\<close> in every group and which takes one step), \<open>main()\<close> as their
    composition, and the exit-code logic of \<open>__main__\<close>.
  \<^item> This theory: properties of a whole run of \<open>main()\<close>.

  \<^bold>\<open>What is proved.\<close> Regrouping is the transposition the loss needs, a permutation, and
  agrees with the disabled index check; the prepared batch keeps every input with its
  label; the loss groups are the sampler's classes (C1--C6). \<open>check_values\<close> accepts
  exactly the consistent configurations, with the exact error otherwise (C7--C8). The
  running averages seed and recur as line 128 says, re-seed on an exact 0, and reduce to
  the latest sample with one worker (C9--C11). The loop advances one step per batch, stops
  exactly at the budget, ends early when the loader is exhausted, processes one batch when
  entered past the budget, returns whenever the batches fit and the cadences are non-zero,
  keeps the best-loss watermark, logs in step order, ends with a checkpoint at the budget,
  keeps the scheduler in step and crashes on a zero plot cadence (C12--C22). A restore
  tolerates layout mismatches, copies exactly the matching parameters, leaves the criterion
  loaded only after a strict model load, resets the learning rate, and fails on a
  checkpoint without a model (C23--C27). The entry point rejects unknown losses and maps
  exceptions to exit codes (C28--C29). Whole runs: the scheduler ends at the final step,
  resuming with \<open>lr_decay\<close> from a non-zero step raises, a restored run resumes from the
  checkpoint's step, the spec's 5-step scenario ends with a final checkpoint,
  \<open>main()\<close> returns under stated preconditions, and a restored run writes a best-model
  checkpoint at its first due step (C30--C35).

  \<^bold>\<open>Bounds and fuel.\<close> No fuel is needed: the only loop, over the loader, is structural
  recursion over the finite list of batches, and \<open>py_range_from\<close> terminates by the measure
  \<open>b - a\<close>. Steps and counters are unbounded Python ints (\<open>int\<close>), floats are reals.

  \<^bold>\<open>Not modelled.\<close> Tensor arithmetic, the network and the losses' formulas (abstracted by
  the learner interface); IEEE rounding (so only identities of the float code are stated,
  no order bounds); the learning rates NoamLR computes (only its counter and its
  constructor's error); CUDA placement and the module-level cudnn/seed
  setup; the dataset's file I/O and the sampler's shuffling (the loader is its list of
  batches); the contents of dashboard figures and log lines (only which step emitted
  what); \<open>init_training()\<close>, \<open>copy_model_files()\<close> and parameter counting, which do not
  affect the modelled state; the \<open>-1\<close> dimension inference of \<open>view\<close> beyond the
  sizes the code passes.
\<close>

lemmas main_eval =
  main_def setup_loader_def select_criterion_def init_scheduler_def example_ds_def
  example_ms_def example_mk_def

lemmas restore_eval =
  restore_def load_model_and_criterion_def ck_get_def load_state_dict_def same_layout_def
  set_init_dict_def Let_def

text \<open>
  What \<open>main()\<close> hands to \<open>train()\<close> when it gets that far: a state whose step is the
  restored step (0 without a checkpoint), with the scheduler the constructor left.
\<close>

lemma main_run:
  assumes "main c mk ds ms0 ck bs = Inr s"
  shows "\<exists>crit ms rs ms'. (case ck of None \<Rightarrow> rs = 0 | Some k \<Rightarrow> ck_step k = Some rs)
     \<and> train_loop c (mk crit)
         (init_state ms' (if lr_decay c then Some rs else None) rs) bs = Inr s"
proof -
  from main_Inr [OF assms] obtain crit ms rs ms' sch
    where rst: "case ck of None \<Rightarrow> (ms, rs) = (fresh_optimizer c ms0, 0)
                 | Some k \<Rightarrow> restore c (fresh_optimizer c ms0) k = Inr (ms, rs)"
    and sch: "init_scheduler c ms rs = Inr (ms', sch)"
    and run: "train_loop c (mk crit) (init_state ms' sch rs) bs = Inr s"
    by blast
  from rst have "case ck of None \<Rightarrow> rs = 0 | Some k \<Rightarrow> ck_step k = Some rs"
    by (cases ck) (auto dest: restore_Inr)
  with init_scheduler_Inr [OF sch] run show ?thesis by blast
qed

section \<open>Properties of a whole run\<close>

text \<open>
  C30. With \<open>lr_decay\<close>, the NoamLR counter starts at \<open>restore_step\<close> (the constructor
  is given \<open>last_epoch = restore_step - 1\<close> and takes one step) and \<open>train()\<close> advances
  it once per batch, so a run that returns ends with the counter at \<open>global_step\<close>.
\<close>

theorem main_scheduler_tracks_step:
  assumes "main c mk ds ms0 ck bs = Inr s" and "lr_decay c"
  shows "scheduler s = Some (global_step s)"
proof -
  from main_run [OF assms(1)] obtain crit rs ms'
    where run: "train_loop c (mk crit) (init_state ms' (if lr_decay c then Some rs else None) rs) bs
                = Inr s"
    by auto
  from train_loop_scheduler [OF run] assms(2) show ?thesis
    by (simp add: init_state_def)
qed

theorem main_scheduler_tracks_step_witness:
  "\<exists>s. main ((example_config 5 1000)\<lparr>lr_decay := True\<rparr>) example_mk example_ds example_ms None
         [example_batch, example_batch] = Inr s
     \<and> scheduler s = Some 2"
proof -
  obtain s where run: "main ((example_config 5 1000)\<lparr>lr_decay := True\<rparr>) example_mk example_ds
      example_ms None [example_batch, example_batch] = Inr s" and gs: "global_step s = 2"
    by (simp add: main_eval train_eval example_eval)
  from main_scheduler_tracks_step [OF run] gs have "scheduler s = Some 2" by simp
  with run show ?thesis by blast
qed

text \<open>
  C31. Resuming with \<open>lr_decay\<close> from a checkpoint of any step but 0 raises: the
  optimizer of line 182 is new and the restore sets only \<open>"lr"\<close> in its groups, so the
  scheduler constructor, given \<open>last_epoch \<noteq> -1\<close>, finds no \<open>initial_lr\<close> and raises
  \<open>KeyError\<close> before the first batch.
\<close>

theorem main_resume_lr_decay_raises:
  assumes "num_classes_in_batch c = Some k" "num_utter_per_class c = Some u"
    and "num_loader_workers c = Some w" "0 \<le> w"
    and "loss c \<in> {''ge2e'', ''angleproto'', ''softmaxproto''}"
    and "model_params c ''proj_dim'' \<noteq> None"
    and "ck_model kp = Some m" "ck_step kp = Some n" "n \<noteq> 0" and "lr_decay c"
  shows "main c mk ds ms0 (Some kp) bs = Inl (KeyError ''initial_lr'')"
proof -
  from select_criterion_ok [OF assms(5,6)] obtain crit sv
    where crit: "select_criterion c (ds_num_classes ds) = Inr (crit, sv)" by blast
  from restore_total [OF assms(7,8)] obtain ms
    where rst: "restore c (fresh_optimizer c ms0) kp = Inr (ms, n)" by blast
  from restore_Inr [OF rst] have "group_initial_lrs ms = [None]" by auto
  with assms(9,10) have "init_scheduler c ms n = Inl (KeyError ''initial_lr'')"
    by (simp add: init_scheduler_resume)
  with crit rst show ?thesis
    by (simp add: main_def setup_loader_train [OF assms(1-4)])
qed

theorem main_resume_lr_decay_raises_witness:
  "main ((example_config 5 1000)\<lparr>lr_decay := True\<rparr>) example_mk example_ds example_ms
     (Some \<lparr>ck_model = Some [''w'' \<mapsto> ([1], 7)], ck_criterion = None, ck_step = Some 3\<rparr>)
     [example_batch] = Inl (KeyError ''initial_lr'')"
  by (rule main_resume_lr_decay_raises [where k = 2 and u = 3 and w = 0 and n = 3])
    (simp_all add: example_eval default_model_params_def)

text \<open>
  C32. A run restored from a checkpoint continues from the checkpoint's step: it ends at
  that step plus the number of batches processed, which the budget bounds (one batch at
  least when the checkpoint is already at or past \<open>max_train_step\<close>).
\<close>

theorem main_resumes_from_checkpoint:
  assumes "main c mk ds ms0 (Some k) bs = Inr s"
  shows "\<exists>n. ck_step k = Some n
     \<and> global_step s = n + min (int (length bs)) (max 1 (max_train_step c - n))"
proof -
  from main_run [OF assms] obtain crit rs ms' where st: "ck_step k = Some rs"
    and run: "train_loop c (mk crit) (init_state ms' (if lr_decay c then Some rs else None) rs) bs
              = Inr s"
    by auto
  from train_loop_global_step [OF run] st show ?thesis
    by (simp add: init_state_def)
qed

theorem main_resumes_from_checkpoint_witness:
  "\<exists>s. main (example_config 5 1000) example_mk example_ds example_ms
         (Some \<lparr>ck_model = Some [''w'' \<mapsto> ([1], 7)], ck_criterion = None, ck_step = Some 3\<rparr>)
         [example_batch, example_batch, example_batch, example_batch] = Inr s
     \<and> global_step s = 5"
proof -
  let ?k = "\<lparr>ck_model = Some [''w'' \<mapsto> ([1], 7::nat)], ck_criterion = None, ck_step = Some 3\<rparr>"
  obtain s where run: "main (example_config 5 1000) example_mk example_ds example_ms (Some ?k)
         [example_batch, example_batch, example_batch, example_batch] = Inr s"
    by (simp add: main_eval train_eval example_eval restore_eval)
  from main_resumes_from_checkpoint [OF run] have "global_step s = 5"
    by (simp add: example_eval)
  with run show ?thesis by blast
qed

text \<open>
  C33. The spec's scenario generalised: a fresh run (no restore) with enough batches and no
  multiple of \<open>save_step\<close> before \<open>max_train_step\<close> stops at \<open>max_train_step\<close> and
  ends by writing a best-model checkpoint there, holding the final smoothed loss.
\<close>

theorem main_final_checkpoint:
  assumes "main c mk ds ms0 None bs = Inr s" and "0 < max_train_step c"
    and "max_train_step c \<le> int (length bs)"
    and "\<forall>k. 0 < k \<and> k < max_train_step c \<longrightarrow> k mod save_step c \<noteq> 0"
  shows "global_step s = max_train_step c
     \<and> last (events s) = BestModelSaved (max_train_step c) (avg_loss s)"
proof -
  from main_run [OF assms(1)] obtain crit ms'
    where run: "train_loop c (mk crit) (init_state ms' (if lr_decay c then Some 0 else None) 0) bs
                = Inr s"
    by auto
  from train_loop_global_step [OF run] assms(2,3) have "global_step s = max_train_step c"
    by (simp add: init_state_def)
  moreover from train_loop_last_save [OF _ _ _ _ run] assms(2-4)
  have "last (events s) = BestModelSaved (max_train_step c) (avg_loss s)"
    by (simp add: init_state_def)
  ultimately show ?thesis ..
qed

theorem main_final_checkpoint_witness:
  "\<exists>s. main (example_config 5 1000) example_mk example_ds example_ms None
         [example_batch, example_batch, example_batch, example_batch, example_batch] = Inr s
     \<and> global_step s = 5 \<and> last (events s) = BestModelSaved 5 (avg_loss s)"
proof -
  obtain s where run: "main (example_config 5 1000) example_mk example_ds example_ms None
         [example_batch, example_batch, example_batch, example_batch, example_batch] = Inr s"
    by (simp add: main_eval train_eval example_eval)
  have "\<forall>k. 0 < k \<and> k < max_train_step (example_config 5 1000)
          \<longrightarrow> k mod save_step (example_config 5 1000) \<noteq> 0"
    by (auto simp: example_eval)
  with main_final_checkpoint [OF run] have
    "global_step s = 5 \<and> last (events s) = BestModelSaved 5 (avg_loss s)"
    by (simp add: example_eval)
  with run show ?thesis by blast
qed



text \<open>
  C35. The best-loss watermark is a local of \<open>train()\<close> starting at \<open>inf\<close>, so in a
  restored run the first step after the restored one at which a checkpoint is due always
  writes a best-model checkpoint, whatever loss the run that wrote the checkpoint had
  reached (for a checkpoint written at a multiple of \<open>save_step\<close>, that is the next
  multiple).
\<close>

theorem main_restore_first_save:
  assumes "main c mk ds ms0 (Some k) bs = Inr s" and "ck_step k = Some n"
    and "n < m" and "m \<le> global_step s" and "checkpoint_due c m = Inr True"
    and "\<forall>j. n < j \<and> j < m \<longrightarrow> checkpoint_due c j = Inr False"
  shows "\<exists>l. BestModelSaved m l \<in> set (events s)"
proof -
  from main_run [OF assms(1)] assms(2) obtain crit ms'
    where run: "train_loop c (mk crit) (init_state ms' (if lr_decay c then Some n else None) n) bs
                = Inr s"
    by auto
  from train_loop_reaches [OF run] obtain b
    where "train_reaches c (mk crit) (init_state ms' (if lr_decay c then Some n else None) n) s b" ..
  from train_reaches_first_save [OF this] assms(3-6) show ?thesis
    by (simp add: init_state_def)
qed

theorem main_restore_first_save_witness:
  "\<exists>s l. main (example_config 10 2) example_mk example_ds example_ms
         (Some \<lparr>ck_model = Some [''w'' \<mapsto> ([1], 7)], ck_criterion = None, ck_step = Some 4\<rparr>)
         [example_batch, example_batch, example_batch] = Inr s
     \<and> BestModelSaved 6 l \<in> set (events s)"
proof -
  let ?k = "\<lparr>ck_model = Some [''w'' \<mapsto> ([1], 7::nat)], ck_criterion = None, ck_step = Some 4\<rparr>"
  obtain s where run: "main (example_config 10 2) example_mk example_ds example_ms (Some ?k)
         [example_batch, example_batch, example_batch] = Inr s" and gs: "global_step s = 7"
    by (simp add: main_eval train_eval example_eval restore_eval)
  have "ck_step ?k = Some 4" by simp
  moreover have "checkpoint_due (example_config 10 2) 6 = Inr True"
    by (simp add: checkpoint_due_def py_mod_def example_eval)
  moreover have "\<forall>j. 4 < j \<and> j < 6 \<longrightarrow> checkpoint_due (example_config 10 2) j = Inr False"
  proof (intro allI impI)
    fix j :: int assume "4 < j \<and> j < 6"
    then have "j = 5" by arith
    then show "checkpoint_due (example_config 10 2) j = Inr False"
      by (simp add: checkpoint_due_def py_mod_def example_eval)
  qed
  ultimately have "\<exists>l. BestModelSaved 6 l \<in> set (events s)"
    using main_restore_first_save [OF run] gs by simp
  with run show ?thesis by blast
qed

end
